theory Spec2Isabelle
  imports Main "HOL-Library.AList" "HOL-Library.Sublist"
begin

section \<open>JavaScript values and JSON objects\<close>

text \<open>
  The values that travel through the identity and access-control code are the primitives
  of a JSON document: strings, booleans and \<open>null\<close>, and \<open>undefined\<close> for a property
  that is not there. Every field these functions read is a string, a boolean or \<open>null\<close>
  in the data model; JSON numbers, arrays and nested objects are outside the model.
  \<open>===\<close> on these values is equality. Strings are lists of 8-bit characters; the roll
  numbers, department codes and role names of the system are ASCII.
\<close>

datatype jsval = JUndefined | JNull | JBool bool | JStr string

text \<open>ToBoolean: what \<open>if (v)\<close>, \<open>!v\<close> and \<open>v || w\<close> test.\<close>

fun truthy :: "jsval \<Rightarrow> bool" where
  "truthy JUndefined = False"
| "truthy JNull = False"
| "truthy (JBool b) = b"
| "truthy (JStr s) = (s \<noteq> [])"

text \<open>\<open>a || b\<close>\<close>

definition js_or :: "jsval \<Rightarrow> jsval \<Rightarrow> jsval" where
  "js_or a b = (if truthy a then a else b)"

text \<open>ToString: template literals, property keys and regular-expression arguments.\<close>

fun to_string :: "jsval \<Rightarrow> string" where
  "to_string JUndefined = ''undefined''"
| "to_string JNull = ''null''"
| "to_string (JBool b) = (if b then ''true'' else ''false'')"
| "to_string (JStr s) = s"

text \<open>
  An object parsed from JSON or written as an object literal: its own enumerable
  properties in insertion order. \<open>get ob k\<close> is the read \<open>ob.k\<close> of a property that
  \<open>Object.prototype\<close> does not define; an absent property reads as \<open>undefined\<close>.
\<close>

type_synonym obj = "(string \<times> jsval) list"

definition get :: "obj \<Rightarrow> string \<Rightarrow> jsval" where
  "get ob k = (case map_of ob k of None \<Rightarrow> JUndefined | Some v \<Rightarrow> v)"

definition keys :: "obj \<Rightarrow> string list" where
  "keys ob = map fst ob"

text \<open>
  Object spread \<open>{...a, ...b}\<close>: the properties of \<open>b\<close> are assigned onto a copy of
  \<open>a\<close> in order, overwriting in place or appending.
\<close>

definition spread :: "obj \<Rightarrow> obj \<Rightarrow> obj" where
  "spread a b = fold (\<lambda>(k, v). AList.update k v) b a"

text \<open>Rest destructuring \<open>const { k: _, ...rest } = ob\<close>.\<close>

definition without :: "string \<Rightarrow> obj \<Rightarrow> obj" where
  "without k ob = AList.delete k ob"

text \<open>\<open>Array.prototype.findIndex\<close>; \<open>None\<close> is the result \<open>-1\<close>.\<close>

fun findIndex :: "('a \<Rightarrow> bool) \<Rightarrow> 'a list \<Rightarrow> nat option" where
  "findIndex P [] = None"
| "findIndex P (x # xs) =
     (if P x then Some 0 else map_option Suc (findIndex P xs))"

text \<open>\<open>String.prototype.includes\<close>\<close>

definition str_includes :: "string \<Rightarrow> string \<Rightarrow> bool" where
  "str_includes s needle = sublist needle s"

text \<open>
  \<open>String.prototype.toUpperCase\<close> on ASCII text: the letters a to z are folded, every
  other character is kept.
\<close>

definition upper_char :: "char \<Rightarrow> char" where
  "upper_char c =
     (case map_of (zip ''abcdefghijklmnopqrstuvwxyz'' ''ABCDEFGHIJKLMNOPQRSTUVWXYZ'') c of
        Some C \<Rightarrow> C
      | None \<Rightarrow> c)"

definition toUpperCase :: "string \<Rightarrow> string" where
  "toUpperCase s = map upper_char s"

text \<open>\<open>s.substring(0, 2)\<close>\<close>

definition substring02 :: "string \<Rightarrow> string" where
  "substring02 s = take 2 s"

section \<open>utils/mspMapper.js\<close>

definition NITWarangalMSP :: string where
  "NITWarangalMSP = ''NITWarangalMSP''"

definition DepartmentsMSP :: string where
  "DepartmentsMSP = ''DepartmentsMSP''"

definition VerifiersMSP :: string where
  "VerifiersMSP = ''VerifiersMSP''"

definition ROLE_TO_MSP :: obj where
  "ROLE_TO_MSP =
     [(''admin'', JStr NITWarangalMSP),
      (''student'', JStr NITWarangalMSP),
      (''department'', JStr DepartmentsMSP),
      (''verifier'', JStr VerifiersMSP)]"

text \<open>
  \<open>ROLE_TO_MSP\<close> is an object literal, so the computed read \<open>ROLE_TO_MSP[role]\<close>
  falls through to \<open>Object.prototype\<close> when \<open>role\<close> is not an own key. These are the
  property names defined there; each holds a built-in function, except \<open>__proto__\<close>,
  which reads as \<open>Object.prototype\<close> itself. All of them are truthy.
\<close>

definition Object_prototype_names :: "string list" where
  "Object_prototype_names =
     [''constructor'', ''__defineGetter__'', ''__defineSetter__'', ''hasOwnProperty'',
      ''__lookupGetter__'', ''__lookupSetter__'', ''isPrototypeOf'',
      ''propertyIsEnumerable'', ''toString'', ''valueOf'', ''__proto__'',
      ''toLocaleString'']"

text \<open>
  What a namespace lookup can yield: a JSON primitive, the built-in found under an
  inherited name, or (only after a JSON round trip of \<open>Object.prototype\<close>) an empty
  object.
\<close>

datatype mspval = Plain jsval | Builtin string | EmptyObject

text \<open>\<open>const getMSPForRole = (role) => ROLE_TO_MSP[role] || null\<close>\<close>

definition getMSPForRole :: "jsval \<Rightarrow> mspval" where
  "getMSPForRole role =
     (let k = to_string role in
      case map_of ROLE_TO_MSP k of
        Some v \<Rightarrow> Plain (js_or v JNull)
      | None \<Rightarrow> if k \<in> set Object_prototype_names then Builtin k else Plain JNull)"

text \<open>\<open>Object.keys(ROLE_TO_MSP).includes(role)\<close>: own keys only, compared without coercion.\<close>

definition isValidRole :: "jsval \<Rightarrow> bool" where
  "isValidRole role = (role \<in> set (map JStr (keys ROLE_TO_MSP)))"

section \<open>The jsonwebtoken and bcryptjs libraries\<close>

text \<open>
  The claims of a token payload. \<open>jwt.sign\<close> serialises the payload with
  \<open>JSON.stringify\<close>: a property whose value is \<open>undefined\<close> or a function is dropped
  (it reads as \<open>undefined\<close> after decoding), and \<open>Object.prototype\<close> is written as
  \<open>{}\<close>. The access token carries all six claims, the refresh token only the first two.
  The principal that \<open>authenticateToken\<close> stores in \<open>req.user\<close> has the same six
  properties.
\<close>

record claims =
  userId :: jsval
  username :: jsval
  role :: jsval
  mspId :: mspval
  department :: jsval
  email :: jsval

fun json_msp :: "mspval \<Rightarrow> mspval" where
  "json_msp (Plain v) = Plain v"
| "json_msp (Builtin k) = (if k = ''__proto__'' then EmptyObject else Plain JUndefined)"
| "json_msp EmptyObject = EmptyObject"

type_synonym principal = claims

definition json_claims :: "claims \<Rightarrow> claims" where
  "json_claims c = c\<lparr>mspId := json_msp (mspId c)\<rparr>"

text \<open>
  A token string, symbolically: \<open>Jwt c iat exp key\<close> is the compact serialisation of a
  token with claims \<open>c\<close>, issued at \<open>iat\<close>, expiring at \<open>exp\<close> (seconds since the
  epoch) and signed with the HMAC key \<open>key\<close>; \<open>Raw s\<close> is any other string \<open>s\<close>. A
  token contains no space and is not empty.
\<close>

datatype token = Jwt claims nat "nat option" string | Raw string

datatype jwt_error = TokenExpiredError | JsonWebTokenError | OtherError

text \<open>\<open>jwt.sign(payload, key, { expiresIn })\<close> at time \<open>now\<close>, \<open>expiresIn\<close> in seconds.\<close>

definition jwt_sign :: "claims \<Rightarrow> string \<Rightarrow> nat \<Rightarrow> nat \<Rightarrow> token" where
  "jwt_sign payload key expiresIn now = Jwt (json_claims payload) now (Some (now + expiresIn)) key"

text \<open>
  \<open>jwt.verify(token, key)\<close> at time \<open>now\<close>: the signature is checked first, then the
  expiry (\<open>now >= exp\<close> is expired).
\<close>

fun jwt_verify :: "token \<Rightarrow> string \<Rightarrow> nat \<Rightarrow> jwt_error + claims" where
  "jwt_verify (Raw s) key now = Inl JsonWebTokenError"
| "jwt_verify (Jwt c iat exp k) key now =
     (if k \<noteq> key then Inl JsonWebTokenError
      else case exp of
             None \<Rightarrow> Inr c
           | Some e \<Rightarrow> if e \<le> now then Inl TokenExpiredError else Inr c)"

text \<open>\<open>!token\<close> for a token string: only the empty string is falsy.\<close>

fun token_truthy :: "token \<Rightarrow> bool" where
  "token_truthy (Raw s) = (s \<noteq> [])"
| "token_truthy (Jwt c iat exp k) = True"

fun js_typeof :: "jsval \<Rightarrow> string" where
  "js_typeof JUndefined = ''undefined''"
| "js_typeof JNull = ''object''"
| "js_typeof (JBool b) = ''boolean''"
| "js_typeof (JStr s) = ''string''"

text \<open>
  bcryptjs: the hash of a password (salt included) and the comparison of a password with a
  hash are parameters; both calls reject an argument that is not a string.
\<close>

record bcrypt =
  hash :: "string \<Rightarrow> string"
  compare :: "string \<Rightarrow> string \<Rightarrow> bool"

definition bcrypt_hash :: "bcrypt \<Rightarrow> jsval \<Rightarrow> string + string" where
  "bcrypt_hash B s =
     (case s of
        JStr p \<Rightarrow> Inr (hash B p)
      | _ \<Rightarrow> Inl (''Illegal arguments: '' @ js_typeof s @ '', number''))"

definition bcrypt_compare :: "bcrypt \<Rightarrow> jsval \<Rightarrow> jsval \<Rightarrow> string + bool" where
  "bcrypt_compare B s h =
     (case (s, h) of
        (JStr p, JStr q) \<Rightarrow> Inr (compare B p q)
      | _ \<Rightarrow> Inl (''Illegal arguments: '' @ js_typeof s @ '', '' @ js_typeof h))"

section \<open>middleware/auth.js\<close>

text \<open>
  The part of an Express request the middleware reads: the \<open>authorization\<close> header as
  the fields of \<open>authHeader.split(' ')\<close> (\<open>None\<close> when the header is absent),
  \<open>req.user\<close>, \<open>req.params.rollNumber\<close>, \<open>req.body\<close>, and the
  \<open>req.departmentFilter\<close> the middleware sets.
\<close>

record request =
  authorization :: "token list option"
  user :: "principal option"
  rollNumber :: "string option"
  body :: "obj option"
  departmentFilter :: jsval

text \<open>
  A response \<open>res.status(n).json({ success, message, ... })\<close>; \<open>extra\<close> holds the
  remaining properties of the body.
\<close>

datatype extra =
    NoExtra
  | Code string
  | ErrorText string
  | UserData obj mspval
  | WarningUserData string obj mspval
  | AccessData token string
  | LoginData token token string obj mspval

record response =
  status :: nat
  success :: bool
  message :: string
  extra :: extra

text \<open>
  How a middleware ends: it calls \<open>next()\<close> with the request as it left it, sends a
  response, or throws.
\<close>

datatype outcome = Next request | Respond response | Throws string

definition default_secret :: string where
  "default_secret = ''default-secret-change-in-production''"

text \<open>\<open>process.env.JWT_SECRET || 'default-secret-change-in-production'\<close>\<close>

definition jwt_secret :: "string option \<Rightarrow> string" where
  "jwt_secret env_JWT_SECRET =
     (case env_JWT_SECRET of
        None \<Rightarrow> default_secret
      | Some s \<Rightarrow> if s \<noteq> [] then s else default_secret)"

text \<open>\<open>authHeader && authHeader.split(' ')[1]\<close>\<close>

definition bearer_token :: "request \<Rightarrow> token option" where
  "bearer_token req =
     (case authorization req of
        None \<Rightarrow> None
      | Some parts \<Rightarrow> if 1 < length parts then Some (parts ! 1) else None)"

definition authenticateToken :: "string option \<Rightarrow> nat \<Rightarrow> request \<Rightarrow> outcome" where
  "authenticateToken env_JWT_SECRET now req =
     (case bearer_token req of
        None \<Rightarrow> Respond \<lparr>status = 401, success = False,
          message = ''Access token required. Please provide a valid JWT token in the Authorization header.'',
          extra = NoExtra\<rparr>
      | Some t \<Rightarrow>
          if \<not> token_truthy t then Respond \<lparr>status = 401, success = False,
            message = ''Access token required. Please provide a valid JWT token in the Authorization header.'',
            extra = NoExtra\<rparr>
          else
            (case jwt_verify t (jwt_secret env_JWT_SECRET) now of
               Inr decoded \<Rightarrow>
                 Next (req\<lparr>user := Some
                   \<lparr>userId = userId decoded,
                    username = username decoded,
                    role = role decoded,
                    mspId = mspId decoded,
                    department = js_or (department decoded) JNull,
                    email = js_or (email decoded) JNull\<rparr>\<rparr>)
             | Inl TokenExpiredError \<Rightarrow> Respond \<lparr>status = 403, success = False,
                 message = ''Token expired. Please login again.'', extra = Code ''TOKEN_EXPIRED''\<rparr>
             | Inl JsonWebTokenError \<Rightarrow> Respond \<lparr>status = 403, success = False,
                 message = ''Invalid token. Please login again.'', extra = Code ''INVALID_TOKEN''\<rparr>
             | Inl OtherError \<Rightarrow> Respond \<lparr>status = 403, success = False,
                 message = ''Token verification failed'', extra = Code ''VERIFICATION_FAILED''\<rparr>))"

text \<open>
  \<open>enforceDepartmentAccess\<close>. \<open>req.user.department.substring\<close> is a method call: on a
  department that is not a string it throws a TypeError.
\<close>

definition enforceDepartmentAccess :: "request \<Rightarrow> outcome" where
  "enforceDepartmentAccess req =
     (case user req of
        None \<Rightarrow> Respond \<lparr>status = 401, success = False,
          message = ''Authentication required'', extra = NoExtra\<rparr>
      | Some u \<Rightarrow>
          if role u = JStr ''admin'' then Next req
          else if role u = JStr ''faculty'' then
            (if \<not> truthy (department u) then Respond \<lparr>status = 403, success = False,
               message = ''Your account has no department assigned. Please contact administrator.'',
               extra = NoExtra\<rparr>
             else
               let req1 = req\<lparr>departmentFilter := department u\<rparr>;
                   studentCheck =
                     (case rollNumber req1 of
                        None \<Rightarrow> None
                      | Some rn \<Rightarrow>
                          if rn = [] then None
                          else
                            (case department u of
                               JStr d \<Rightarrow>
                                 if toUpperCase (substring02 rn) \<noteq> toUpperCase (substring02 d)
                                 then Some (Respond \<lparr>status = 403, success = False,
                                   message = ''Access denied: Student '' @ rn @
                                     '' is not in your department ('' @ d @ '')'',
                                   extra = NoExtra\<rparr>)
                                 else None
                             | _ \<Rightarrow> Some (Throws
                                 ''TypeError: req.user.department.substring is not a function'')))
               in case studentCheck of
                    Some out \<Rightarrow> out
                  | None \<Rightarrow>
                      (case body req1 of
                         None \<Rightarrow> Next req1
                       | Some b \<Rightarrow>
                           if truthy (get b ''department'') \<and> get b ''department'' \<noteq> department u
                           then Respond \<lparr>status = 403, success = False,
                             message = ''Access denied: You can only modify data for your department (''
                               @ to_string (department u) @ '')'',
                             extra = NoExtra\<rparr>
                           else Next req1))
          else Next req)"

section \<open>utils/userManager.js\<close>

text \<open>
  The store is the array of account objects held in \<open>users.json\<close>; every function
  loads it, and the mutating ones write the whole array back. The model passes the array
  in and returns it updated; reading and writing the file are taken to succeed. An error
  is the message of the \<open>Error\<close> thrown.
\<close>

definition findUserByUsername :: "obj list \<Rightarrow> jsval \<Rightarrow> obj option" where
  "findUserByUsername users uname = List.find (\<lambda>u. get u ''username'' = uname) users"

definition findUserByEmail :: "obj list \<Rightarrow> jsval \<Rightarrow> obj option" where
  "findUserByEmail users mail = List.find (\<lambda>u. get u ''email'' = mail) users"

definition findUserById :: "obj list \<Rightarrow> jsval \<Rightarrow> obj option" where
  "findUserById users uid = List.find (\<lambda>u. get u ''id'' = uid) users"

text \<open>
  The clock readings of one call: \<open>Date.now()\<close> in decimal, and the successive
  \<open>new Date().toISOString()\<close>.
\<close>

record clock =
  date_now :: string
  iso_first :: string
  iso_second :: string

definition createUser ::
  "bcrypt \<Rightarrow> clock \<Rightarrow> obj list \<Rightarrow> obj \<Rightarrow> (string + obj) \<times> obj list" where
  "createUser B clk users userData =
     (let uname = get userData ''username'';
          pw = get userData ''password'';
          mail = get userData ''email'';
          rl = get userData ''role'';
          dept = get userData ''department''
      in
      if \<not> truthy uname \<or> \<not> truthy pw \<or> \<not> truthy mail \<or> \<not> truthy rl
      then (Inl ''Missing required fields: username, password, email, role'', users)
      else if \<not> isValidRole rl
      then (Inl (''Invalid role: '' @ to_string rl @
                 ''. Valid roles: admin, student, faculty, verifier''), users)
      else if (rl = JStr ''faculty'' \<or> rl = JStr ''student'') \<and> \<not> truthy dept
      then (Inl ''Department is required for faculty and student roles'', users)
      else if findUserByUsername users uname \<noteq> None
      then (Inl (''Username '' @ [CHR 0x27] @ to_string uname @ [CHR 0x27] @
                 '' already exists''), users)
      else if findUserByEmail users mail \<noteq> None
      then (Inl (''Email '' @ [CHR 0x27] @ to_string mail @ [CHR 0x27] @
                 '' already exists''), users)
      else
        (case bcrypt_hash B pw of
           Inl e \<Rightarrow> (Inl e, users)
         | Inr h \<Rightarrow>
             let newUser =
               [(''id'', JStr (to_string rl @ ''-'' @ date_now clk)),
                (''username'', uname),
                (''email'', mail),
                (''passwordHash'', JStr h),
                (''role'', rl),
                (''department'', js_or dept JNull),
                (''createdAt'', JStr (iso_first clk)),
                (''updatedAt'', JStr (iso_second clk)),
                (''isActive'', JBool True)]
             in (Inr (without ''passwordHash'' newUser), users @ [newUser])))"

definition authenticateUser ::
  "bcrypt \<Rightarrow> obj list \<Rightarrow> jsval \<Rightarrow> jsval \<Rightarrow> string + obj option" where
  "authenticateUser B users identifier pw =
     (let found =
        (case findUserByEmail users identifier of
           Some u \<Rightarrow> Some u
         | None \<Rightarrow> findUserByUsername users identifier)
      in case found of
           None \<Rightarrow> Inr None
         | Some u \<Rightarrow>
             if \<not> truthy (get u ''isActive'') then Inr None
             else
               (case bcrypt_compare B pw (get u ''passwordHash'') of
                  Inl e \<Rightarrow> Inl e
                | Inr isPasswordValid \<Rightarrow>
                    if \<not> isPasswordValid then Inr None
                    else Inr (Some (without ''passwordHash'' u))))"

definition allowedUpdates :: "string list" where
  "allowedUpdates = [''email'', ''department'', ''isActive'']"

text \<open>The loop that copies the allowed, defined properties of \<open>updates\<close>.\<close>

definition sanitize :: "obj \<Rightarrow> obj" where
  "sanitize updates =
     fold (\<lambda>k acc. if get updates k \<noteq> JUndefined then AList.update k (get updates k) acc else acc)
       allowedUpdates []"

definition updateUser ::
  "bcrypt \<Rightarrow> clock \<Rightarrow> obj list \<Rightarrow> jsval \<Rightarrow> obj \<Rightarrow> (string + obj) \<times> obj list" where
  "updateUser B clk users uid updates =
     (case findIndex (\<lambda>u. get u ''id'' = uid) users of
        None \<Rightarrow> (Inl ''User not found'', users)
      | Some userIndex \<Rightarrow>
          let sanitizedUpdates = sanitize updates;
              hashed =
                (if truthy (get updates ''password'')
                 then (case bcrypt_hash B (get updates ''password'') of
                         Inl e \<Rightarrow> Inl e
                       | Inr h \<Rightarrow> Inr (AList.update ''passwordHash'' (JStr h) sanitizedUpdates))
                 else Inr sanitizedUpdates)
          in case hashed of
               Inl e \<Rightarrow> (Inl e, users)
             | Inr sanitized \<Rightarrow>
                 let updated =
                       AList.update ''updatedAt'' (JStr (iso_first clk))
                         (spread (users ! userIndex) sanitized);
                     users' = users[userIndex := updated]
                 in (Inr (without ''passwordHash'' (users' ! userIndex)), users'))"

definition getAllUsers :: "obj list \<Rightarrow> obj \<Rightarrow> obj list" where
  "getAllUsers users filters =
     (let users1 = (if truthy (get filters ''role'')
                    then filter (\<lambda>u. get u ''role'' = get filters ''role'') users
                    else users);
          users2 = (if truthy (get filters ''department'')
                    then filter (\<lambda>u. get u ''department'' = get filters ''department'') users1
                    else users1);
          users3 = (if get filters ''isActive'' \<noteq> JUndefined
                    then filter (\<lambda>u. get u ''isActive'' = get filters ''isActive'') users2
                    else users2)
      in map (without ''passwordHash'') users3)"

section \<open>controllers/authController.js\<close>

text \<open>
  The configuration read from the environment: the signing secret, and the two time spans
  (\<open>JWT_EXPIRY\<close>, default \<open>24h\<close>, and \<open>JWT_REFRESH_EXPIRY\<close>, default \<open>7d\<close>), each
  with the number of seconds it denotes.
\<close>

record config =
  env_JWT_SECRET :: "string option"
  JWT_EXPIRY :: string
  JWT_EXPIRY_seconds :: nat
  JWT_REFRESH_EXPIRY_seconds :: nat

definition generateAccessToken :: "config \<Rightarrow> nat \<Rightarrow> obj \<Rightarrow> token" where
  "generateAccessToken cfg now account =
     jwt_sign
       \<lparr>userId = get account ''id'',
        username = get account ''username'',
        role = get account ''role'',
        mspId = getMSPForRole (get account ''role''),
        department = get account ''department'',
        email = get account ''email''\<rparr>
       (jwt_secret (env_JWT_SECRET cfg)) (JWT_EXPIRY_seconds cfg) now"

text \<open>The in-memory \<open>refreshTokens\<close> map.\<close>

type_synonym registry = "token \<rightharpoonup> obj"

definition generateRefreshToken ::
  "config \<Rightarrow> nat \<Rightarrow> string \<Rightarrow> obj \<Rightarrow> registry \<Rightarrow> token \<times> registry" where
  "generateRefreshToken cfg now stamp account refreshTokens =
     (let refreshToken =
        jwt_sign
          \<lparr>userId = get account ''id'',
           username = get account ''username'',
           role = JUndefined,
           mspId = Plain JUndefined,
           department = JUndefined,
           email = JUndefined\<rparr>
          (jwt_secret (env_JWT_SECRET cfg)) (JWT_REFRESH_EXPIRY_seconds cfg) now
      in (refreshToken,
          refreshTokens(refreshToken \<mapsto> [(''userId'', get account ''id''), (''createdAt'', JStr stamp)])))"

text \<open>
  The \<open>refreshToken\<close> property of a request body: a string (a token), or a value that
  is not a string.
\<close>

datatype token_field = TokenString token | NotAString jsval

fun field_truthy :: "token_field \<Rightarrow> bool" where
  "field_truthy (TokenString t) = token_truthy t"
| "field_truthy (NotAString v) = truthy v"

text \<open>\<open>refreshTokens.has(refreshToken)\<close>: the keys of the map are token strings.\<close>

fun registry_has :: "registry \<Rightarrow> token_field \<Rightarrow> bool" where
  "registry_has refreshTokens (TokenString t) = (refreshTokens t \<noteq> None)"
| "registry_has refreshTokens (NotAString (JStr s)) = (refreshTokens (Raw s) \<noteq> None)"
| "registry_has refreshTokens (NotAString v) = False"

fun registry_delete :: "registry \<Rightarrow> token_field \<Rightarrow> registry" where
  "registry_delete refreshTokens (TokenString t) = refreshTokens(t := None)"
| "registry_delete refreshTokens (NotAString (JStr s)) = refreshTokens(Raw s := None)"
| "registry_delete refreshTokens (NotAString v) = refreshTokens"

fun field_token :: "token_field \<Rightarrow> token" where
  "field_token (TokenString t) = t"
| "field_token (NotAString v) = Raw (to_string v)"

definition refresh ::
  "config \<Rightarrow> nat \<Rightarrow> obj list \<Rightarrow> registry \<Rightarrow> token_field \<Rightarrow> response \<times> registry" where
  "refresh cfg now users refreshTokens refreshToken =
     (if \<not> field_truthy refreshToken
      then (\<lparr>status = 400, success = False, message = ''Refresh token is required'',
             extra = NoExtra\<rparr>, refreshTokens)
      else if \<not> registry_has refreshTokens refreshToken
      then (\<lparr>status = 403, success = False, message = ''Invalid refresh token'',
             extra = NoExtra\<rparr>, refreshTokens)
      else
        (case jwt_verify (field_token refreshToken) (jwt_secret (env_JWT_SECRET cfg)) now of
           Inl TokenExpiredError \<Rightarrow>
             (\<lparr>status = 403, success = False,
               message = ''Refresh token expired. Please login again.'',
               extra = NoExtra\<rparr>, refreshTokens)
         | Inl _ \<Rightarrow>
             (\<lparr>status = 403, success = False, message = ''Invalid refresh token'',
               extra = NoExtra\<rparr>, refreshTokens)
         | Inr decoded \<Rightarrow>
             (case findUserByUsername users (username decoded) of
                None \<Rightarrow>
                  (\<lparr>status = 403, success = False, message = ''User not found or inactive'',
                    extra = NoExtra\<rparr>, registry_delete refreshTokens refreshToken)
              | Some u \<Rightarrow>
                  if \<not> truthy (get u ''isActive'')
                  then (\<lparr>status = 403, success = False,
                          message = ''User not found or inactive'',
                          extra = NoExtra\<rparr>, registry_delete refreshTokens refreshToken)
                  else (\<lparr>status = 200, success = True,
                          message = ''Token refreshed successfully'',
                          extra = AccessData (generateAccessToken cfg now u) (JWT_EXPIRY cfg)\<rparr>,
                        refreshTokens))))"

definition logout :: "registry \<Rightarrow> token_field \<Rightarrow> response \<times> registry" where
  "logout refreshTokens refreshToken =
     (\<lparr>status = 200, success = True, message = ''Logged out successfully'', extra = NoExtra\<rparr>,
      if field_truthy refreshToken \<and> registry_has refreshTokens refreshToken
      then registry_delete refreshTokens refreshToken
      else refreshTokens)"

text \<open>
  \<open>login\<close>: both tokens are signed at the time \<open>now\<close>; \<open>stamp\<close> is the
  \<open>createdAt\<close> of the registry entry.
\<close>

definition login ::
  "bcrypt \<Rightarrow> config \<Rightarrow> nat \<Rightarrow> string \<Rightarrow> obj list \<Rightarrow> registry \<Rightarrow> obj \<Rightarrow> response \<times> registry" where
  "login B cfg now stamp users refreshTokens b =
     (let uname = get b ''username'';
          mail = get b ''email'';
          pw = get b ''password'';
          loginIdentifier = js_or mail uname
      in
      if \<not> truthy loginIdentifier \<or> \<not> truthy pw
      then (\<lparr>status = 400, success = False,
              message = ''Email/username and password are required'',
              extra = NoExtra\<rparr>, refreshTokens)
      else
        let first = authenticateUser B users loginIdentifier pw;
            second =
              (case first of
                 Inr None \<Rightarrow>
                   if truthy mail
                   then (case findUserByUsername users loginIdentifier of
                           Some userByUsername \<Rightarrow>
                             authenticateUser B users (get userByUsername ''username'') pw
                         | None \<Rightarrow> first)
                   else first
               | _ \<Rightarrow> first)
        in case second of
             Inl e \<Rightarrow>
               (\<lparr>status = 500, success = False, message = ''An error occurred during login'',
                 extra = ErrorText e\<rparr>, refreshTokens)
           | Inr None \<Rightarrow>
               (\<lparr>status = 401, success = False, message = ''Invalid credentials'',
                 extra = NoExtra\<rparr>, refreshTokens)
           | Inr (Some u) \<Rightarrow>
               let accessToken = generateAccessToken cfg now u;
                   issued = generateRefreshToken cfg now stamp u refreshTokens
               in (\<lparr>status = 200, success = True, message = ''Login successful'',
                    extra = LoginData accessToken (fst issued) (JWT_EXPIRY cfg)
                      [(''id'', get u ''id''),
                       (''username'', get u ''username''),
                       (''email'', get u ''email''),
                       (''role'', get u ''role''),
                       (''department'', get u ''department'')]
                      (getMSPForRole (get u ''role''))\<rparr>,
                   snd issued))"

text \<open>
  The calls that read or change the registry, each with the time and the store at the
  moment of the call, and a run of them.
\<close>

datatype registry_call =
    Login nat string "obj list" obj
  | Refresh nat "obj list" token_field
  | Logout token_field

fun run_calls :: "bcrypt \<Rightarrow> config \<Rightarrow> registry \<Rightarrow> registry_call list \<Rightarrow> registry" where
  "run_calls B cfg refreshTokens [] = refreshTokens"
| "run_calls B cfg refreshTokens (Login now stamp users b # cs) =
     run_calls B cfg (snd (login B cfg now stamp users refreshTokens b)) cs"
| "run_calls B cfg refreshTokens (Refresh now users t # cs) =
     run_calls B cfg (snd (refresh cfg now users refreshTokens t)) cs"
| "run_calls B cfg refreshTokens (Logout t # cs) =
     run_calls B cfg (snd (logout refreshTokens t)) cs"

text \<open>The refresh token a call hands out: the one in the response of a successful login.\<close>

fun issued_token :: "bcrypt \<Rightarrow> config \<Rightarrow> registry_call \<Rightarrow> token option" where
  "issued_token B cfg (Login now stamp users b) =
     (case extra (fst (login B cfg now stamp users Map.empty b)) of
        LoginData accessToken refreshToken expiresIn info msp \<Rightarrow> Some refreshToken
      | _ \<Rightarrow> None)"
| "issued_token B cfg (Refresh now users t) = None"
| "issued_token B cfg (Logout t) = None"

text \<open>
  \<open>/^[^\s@]+@[^\s@]+\.[^\s@]+$/.test(email)\<close>: a non-empty part without white space or
  \<open>@\<close>, an \<open>@\<close>, and a second such part that has a dot strictly inside it. A
  character is a code unit from 0 to 255; of these \<open>\s\<close> matches 9 to 13, 32 and 160
  (the no-break space).
\<close>

definition is_space :: "char \<Rightarrow> bool" where
  "is_space c = ((of_char c :: nat) \<in> {9, 10, 11, 12, 13, 32, 160})"

definition emailRegex_test :: "string \<Rightarrow> bool" where
  "emailRegex_test s =
     (let name = takeWhile (\<lambda>c. c \<noteq> CHR ''@'') s;
          rest = drop (length name + 1) s
      in name \<noteq> [] \<and> length name < length s \<and>
         list_all (\<lambda>c. \<not> is_space c) name \<and>
         list_all (\<lambda>c. \<not> is_space c \<and> c \<noteq> CHR ''@'') rest \<and>
         CHR ''.'' \<in> set (butlast (tl rest)))"

text \<open>\<open>password.length < 6\<close>; the \<open>length\<close> of a boolean is \<open>undefined\<close>, and the test is false.\<close>

fun length_below :: "jsval \<Rightarrow> nat \<Rightarrow> bool" where
  "length_below (JStr s) n = (length s < n)"
| "length_below v n = False"

text \<open>
  What the ledger step of \<open>register\<close> did; it runs after the account is stored and does
  not touch the store.
\<close>

datatype ledger_step = AdminIdentityMissing | LedgerDone | LedgerFailed string

definition register ::
  "bcrypt \<Rightarrow> clock \<Rightarrow> ledger_step \<Rightarrow> obj list \<Rightarrow> obj \<Rightarrow> response \<times> obj list" where
  "register B clk ledger users b =
     (let uname = get b ''username'';
          pw = get b ''password'';
          mail = get b ''email'';
          rl = get b ''role'';
          dept = get b ''department''
      in
      if \<not> truthy uname \<or> \<not> truthy pw \<or> \<not> truthy mail \<or> \<not> truthy rl
      then (\<lparr>status = 400, success = False,
              message = ''Username, password, email, and role are required'',
              extra = NoExtra\<rparr>, users)
      else if length_below pw 6
      then (\<lparr>status = 400, success = False,
              message = ''Password must be at least 6 characters long'',
              extra = NoExtra\<rparr>, users)
      else if \<not> emailRegex_test (to_string mail)
      then (\<lparr>status = 400, success = False, message = ''Invalid email format'',
              extra = NoExtra\<rparr>, users)
      else
        (case createUser B clk users
                [(''username'', uname), (''password'', pw), (''email'', mail), (''role'', rl),
                 (''department'', js_or dept JNull)] of
           (Inl msg, users') \<Rightarrow>
             if str_includes msg ''already exists''
             then (\<lparr>status = 409, success = False, message = msg, extra = NoExtra\<rparr>, users')
             else if str_includes msg ''Invalid role''
             then (\<lparr>status = 400, success = False, message = msg, extra = NoExtra\<rparr>, users')
             else (\<lparr>status = 500, success = False,
                     message = ''An error occurred during registration'',
                     extra = ErrorText msg\<rparr>, users')
         | (Inr created, users') \<Rightarrow>
             let info = [(''id'', get created ''id''),
                         (''username'', get created ''username''),
                         (''email'', get created ''email''),
                         (''role'', get created ''role''),
                         (''department'', get created ''department'')];
                 msp = getMSPForRole (get created ''role'')
             in (case ledger of
                   AdminIdentityMissing \<Rightarrow>
                     \<lparr>status = 201, success = True,
                      message = ''User registered in database only (blockchain creation skipped)'',
                      extra = UserData info msp\<rparr>
                 | LedgerDone \<Rightarrow>
                     \<lparr>status = 201, success = True,
                      message = ''User registered successfully'',
                      extra = UserData info msp\<rparr>
                 | LedgerFailed w \<Rightarrow>
                     \<lparr>status = 201, success = True,
                      message = ''User registered in database. Blockchain creation failed but can be done later.'',
                      extra = WarningUserData w info msp\<rparr>,
                 users')))"

section \<open>Example data\<close>

text \<open>
  Concrete accounts, requests and settings on which the properties below are evaluated.
  \<open>example_bcrypt\<close> stands in for bcryptjs: the properties hold for any pair of
  functions, and the examples need one.
\<close>

definition example_faculty :: principal where
  "example_faculty =
     \<lparr>userId = JStr ''faculty-1700000000000'', username = JStr ''faculty1'',
      role = JStr ''faculty'', mspId = Plain JNull, department = JStr ''CSE'',
      email = JStr ''f1@x.edu''\<rparr>"

definition example_request :: "principal \<Rightarrow> string option \<Rightarrow> obj option \<Rightarrow> request" where
  "example_request u rn b =
     \<lparr>authorization = None, user = Some u, rollNumber = rn, body = b,
      departmentFilter = JUndefined\<rparr>"

definition example_bcrypt :: bcrypt where
  "example_bcrypt = \<lparr>hash = (\<lambda>p. ''$2a$10$'' @ p), compare = (\<lambda>p h. h = ''$2a$10$'' @ p)\<rparr>"

definition example_admin :: obj where
  "example_admin =
     [(''id'', JStr ''admin''), (''username'', JStr ''admin''),
      (''email'', JStr ''admin@nitw.edu''), (''passwordHash'', JStr ''$2a$10$admin123''),
      (''role'', JStr ''admin''), (''department'', JNull),
      (''createdAt'', JStr ''2025-01-01T00:00:00.000Z''), (''isActive'', JBool True)]"

definition example_config :: config where
  "example_config =
     \<lparr>env_JWT_SECRET = None, JWT_EXPIRY = ''24h'', JWT_EXPIRY_seconds = 86400,
      JWT_REFRESH_EXPIRY_seconds = 604800\<rparr>"

definition example_refresh_token :: token where
  "example_refresh_token =
     fst (generateRefreshToken example_config 1000 ''2025-01-01T00:16:40.000Z'' example_admin Map.empty)"

definition example_registry :: registry where
  "example_registry =
     snd (generateRefreshToken example_config 1000 ''2025-01-01T00:16:40.000Z'' example_admin Map.empty)"

definition example_inactive :: obj where
  "example_inactive =
     [(''id'', JStr ''verifier-1700000000000''), (''username'', JStr ''verifier1''),
      (''email'', JStr ''v1@x.edu''), (''passwordHash'', JStr ''$2a$10$Secret123''),
      (''role'', JStr ''verifier''), (''department'', JNull),
      (''createdAt'', JStr ''2023-11-14T22:13:20.000Z''),
      (''updatedAt'', JStr ''2024-02-01T09:00:00.000Z''), (''isActive'', JBool False)]"

definition example_clock :: clock where
  "example_clock =
     \<lparr>date_now = ''1700000000000'', iso_first = ''2023-11-14T22:13:20.000Z'',
      iso_second = ''2023-11-14T22:13:20.001Z''\<rparr>"

definition example_student :: obj where
  "example_student =
     [(''id'', JStr ''student-1700000000000''), (''username'', JStr ''student1''),
      (''email'', JStr ''s1@x.edu''), (''passwordHash'', JStr ''$2a$10$Secret123''),
      (''role'', JStr ''student''), (''department'', JStr ''CSE''),
      (''createdAt'', JStr ''2023-11-14T22:13:20.000Z''),
      (''updatedAt'', JStr ''2023-11-14T22:13:20.001Z''), (''isActive'', JBool True)]"

definition example_blank_department :: obj where
  "example_blank_department =
     [(''id'', JStr ''student-1700000000000''), (''username'', JStr ''student1''),
      (''email'', JStr ''s1@x.edu''), (''passwordHash'', JStr ''$2a$10$Secret123''),
      (''role'', JStr ''student''), (''department'', JStr []),
      (''createdAt'', JStr ''2023-11-14T22:13:20.000Z''),
      (''updatedAt'', JStr ''2023-11-14T22:13:20.000Z''), (''isActive'', JBool True)]"

definition example_bearer :: "token \<Rightarrow> request" where
  "example_bearer t =
     \<lparr>authorization = Some [Raw ''Bearer'', t], user = None, rollNumber = None, body = None,
      departmentFilter = JUndefined\<rparr>"

definition example_body :: obj where
  "example_body =
     [(''username'', JStr ''student1''), (''password'', JStr ''Secret123''),
      (''email'', JStr ''s1@x.edu''), (''role'', JStr ''student''),
      (''department'', JStr ''CSE'')]"

definition example_admin_login :: obj where
  "example_admin_login = [(''username'', JStr ''admin''), (''password'', JStr ''admin123'')]"

definition example_login_body :: obj where
  "example_login_body = [(''username'', JStr ''student1''), (''password'', JStr ''Secret123'')]"

definition example_calls :: "registry_call list" where
  "example_calls =
     [Login 1000 ''2025-01-01T00:16:40.500Z'' [example_admin, example_student] example_login_body,
      Refresh 1500 [example_admin, example_student] (TokenString example_refresh_token),
      Logout (TokenString example_refresh_token),
      Login 1600 ''2025-01-01T00:26:40.000Z'' [example_admin, example_student]
        [(''username'', JStr ''admin''), (''password'', JStr ''wrong-password'')]]"

definition example_updates :: obj where
  "example_updates =
     [(''id'', JStr ''admin''), (''username'', JStr ''root''), (''role'', JStr ''admin''),
      (''createdAt'', JStr ''1970-01-01T00:00:00.000Z''), (''email'', JStr ''s1@nitw.edu''),
      (''password'', JStr ''Changed456'')]"

definition example_updated :: obj where
  "example_updated =
     [(''id'', JStr ''student-1700000000000''), (''username'', JStr ''student1''),
      (''email'', JStr ''s1@nitw.edu''), (''passwordHash'', JStr ''$2a$10$Changed456''),
      (''role'', JStr ''student''), (''department'', JStr ''CSE''),
      (''createdAt'', JStr ''2023-11-14T22:13:20.000Z''),
      (''updatedAt'', JStr ''2023-11-14T22:13:20.000Z''), (''isActive'', JBool True)]"

definition example_faculty_data :: obj where
  "example_faculty_data =
     [(''username'', JStr ''faculty1''), (''password'', JStr ''Secret123''),
      (''email'', JStr ''f1@x.edu''), (''role'', JStr ''faculty''),
      (''department'', JStr ''CSE'')]"

definition example_short_password :: obj where
  "example_short_password =
     [(''username'', JStr ''student1''), (''password'', JStr ''abc''),
      (''email'', JStr ''other@x.edu''), (''role'', JStr ''student''),
      (''department'', JStr ''ECE'')]"

definition example_other_fields :: obj where
  "example_other_fields =
     [(''username'', JStr ''student1''), (''password'', JStr ''Another456''),
      (''email'', JStr ''other@x.edu''), (''role'', JStr ''verifier'')]"

section \<open>Properties of the role mapping\<close>

lemma getMSPForRole_own:
  "getMSPForRole (JStr ''admin'') = Plain (JStr NITWarangalMSP)"
  "getMSPForRole (JStr ''student'') = Plain (JStr NITWarangalMSP)"
  "getMSPForRole (JStr ''department'') = Plain (JStr DepartmentsMSP)"
  "getMSPForRole (JStr ''verifier'') = Plain (JStr VerifiersMSP)"
  by (simp_all add: getMSPForRole_def ROLE_TO_MSP_def js_or_def
      NITWarangalMSP_def DepartmentsMSP_def VerifiersMSP_def)

text \<open>
  C1: the role table is to map admin, student and faculty to NITWarangalMSP, department to
  DepartmentsMSP and verifier to VerifiersMSP. The documentation of \<open>getMSPForRole\<close>
  lists faculty among the roles it takes, and \<open>createUser\<close> names faculty among the valid
  roles and requires a department for it. \<open>ROLE_TO_MSP\<close> has the entries for admin,
  student, department and verifier, and none for faculty: there the lookup yields \<open>null\<close>
  instead of the institute namespace, \<open>isValidRole\<close> is false, and \<open>createUser\<close> refuses
  an account with role faculty by a message that lists faculty as valid.
\<close>

theorem getMSPForRole_faculty:
  "getMSPForRole (JStr ''admin'') = Plain (JStr NITWarangalMSP) \<and>
   getMSPForRole (JStr ''student'') = Plain (JStr NITWarangalMSP) \<and>
   getMSPForRole (JStr ''department'') = Plain (JStr DepartmentsMSP) \<and>
   getMSPForRole (JStr ''verifier'') = Plain (JStr VerifiersMSP) \<and>
   getMSPForRole (JStr ''faculty'') = Plain JNull \<and>
   getMSPForRole (JStr ''faculty'') \<noteq> Plain (JStr NITWarangalMSP) \<and>
   \<not> isValidRole (JStr ''faculty'') \<and>
   createUser B clk users example_faculty_data =
     (Inl ''Invalid role: faculty. Valid roles: admin, student, faculty, verifier'', users)"
proof -
  have "getMSPForRole (JStr ''faculty'') = Plain JNull"
    by (simp add: getMSPForRole_def ROLE_TO_MSP_def Object_prototype_names_def)
  moreover have "\<not> isValidRole (JStr ''faculty'')"
    by (simp add: isValidRole_def keys_def ROLE_TO_MSP_def)
  moreover from this have "createUser B clk users example_faculty_data =
     (Inl ''Invalid role: faculty. Valid roles: admin, student, faculty, verifier'', users)"
    by (simp add: createUser_def example_faculty_data_def get_def)
  ultimately show ?thesis using getMSPForRole_own by simp
qed

theorem getMSPForRole_faculty_witness:
  "getMSPForRole (JStr ''faculty'') = Plain JNull \<and>
   \<not> isValidRole (JStr ''faculty'') \<and>
   createUser example_bcrypt example_clock [example_admin] example_faculty_data =
     (Inl ''Invalid role: faculty. Valid roles: admin, student, faculty, verifier'',
      [example_admin])"
  using getMSPForRole_faculty [of example_bcrypt example_clock "[example_admin]"] by simp

section \<open>Department enforcement\<close>

text \<open>
  C2: a principal with role faculty and department \<open>CSE\<close> that requests the
  resource \<open>CS25B001\<close> is admitted (its payload naming no other department); the same
  principal requesting \<open>EC25B001\<close> is rejected with status 403 and the
  department-mismatch message; a principal with role admin is admitted to any request.
\<close>

theorem enforceDepartmentAccess_scenario:
  "(user req = Some u \<and> role u = JStr ''faculty'' \<and> department u = JStr ''CSE'' \<and>
    rollNumber req = Some ''CS25B001'' \<and>
    (case body req of None \<Rightarrow> True
     | Some b \<Rightarrow> \<not> truthy (get b ''department'') \<or> get b ''department'' = JStr ''CSE'') \<longrightarrow>
      enforceDepartmentAccess req = Next (req\<lparr>departmentFilter := JStr ''CSE''\<rparr>)) \<and>
   (user req = Some u \<and> role u = JStr ''faculty'' \<and> department u = JStr ''CSE'' \<and>
    rollNumber req = Some ''EC25B001'' \<longrightarrow>
      enforceDepartmentAccess req = Respond \<lparr>status = 403, success = False,
        message = ''Access denied: Student EC25B001 is not in your department (CSE)'',
        extra = NoExtra\<rparr>) \<and>
   (user req = Some u \<and> role u = JStr ''admin'' \<longrightarrow> enforceDepartmentAccess req = Next req)"
  by (auto simp: enforceDepartmentAccess_def toUpperCase_def substring02_def upper_char_def
      split: option.splits)

theorem enforceDepartmentAccess_scenario_witness:
  "enforceDepartmentAccess (example_request example_faculty (Some ''CS25B001'') None) =
     Next ((example_request example_faculty (Some ''CS25B001'') None)\<lparr>departmentFilter := JStr ''CSE''\<rparr>) \<and>
   enforceDepartmentAccess (example_request example_faculty (Some ''EC25B001'') None) =
     Respond \<lparr>status = 403, success = False,
        message = ''Access denied: Student EC25B001 is not in your department (CSE)'',
        extra = NoExtra\<rparr> \<and>
   enforceDepartmentAccess (example_request (example_faculty\<lparr>role := JStr ''admin''\<rparr>) (Some ''EC25B001'') None) =
     Next (example_request (example_faculty\<lparr>role := JStr ''admin''\<rparr>) (Some ''EC25B001'') None)"
  using enforceDepartmentAccess_scenario
          [of "example_request example_faculty (Some ''CS25B001'') None" example_faculty]
        enforceDepartmentAccess_scenario
          [of "example_request example_faculty (Some ''EC25B001'') None" example_faculty]
        enforceDepartmentAccess_scenario
          [of "example_request (example_faculty\<lparr>role := JStr ''admin''\<rparr>) (Some ''EC25B001'') None"
              "example_faculty\<lparr>role := JStr ''admin''\<rparr>"]
  by (simp add: example_request_def example_faculty_def)

text \<open>
  C5 (as stated): a principal with role department or faculty and no department is
  rejected. The middleware tests the role faculty only: a principal with role department
  and department \<open>null\<close> is passed on to the handler.
\<close>

theorem enforceDepartmentAccess_department_role_counterexample:
  "enforceDepartmentAccess
     (example_request (example_faculty\<lparr>role := JStr ''department'', department := JNull\<rparr>) None None) =
   Next (example_request (example_faculty\<lparr>role := JStr ''department'', department := JNull\<rparr>) None None)"
  by (simp add: enforceDepartmentAccess_def example_request_def example_faculty_def)

text \<open>
  C5 (amended): every principal whose role is faculty and whose department is null,
  absent or empty is rejected with status 403 and the message that the account has no
  department assigned, and never reaches the handler; a principal whose role is department
  is not subject to the check and is passed on.
\<close>

theorem enforceDepartmentAccess_no_department:
  "(user req = Some u \<and> role u = JStr ''faculty'' \<and> \<not> truthy (department u) \<longrightarrow>
      enforceDepartmentAccess req = Respond \<lparr>status = 403, success = False,
        message = ''Your account has no department assigned. Please contact administrator.'',
        extra = NoExtra\<rparr>) \<and>
   (user req = Some u \<and> role u = JStr ''department'' \<longrightarrow> enforceDepartmentAccess req = Next req)"
  by (simp add: enforceDepartmentAccess_def)

theorem enforceDepartmentAccess_no_department_witness:
  "enforceDepartmentAccess (example_request (example_faculty\<lparr>department := JNull\<rparr>) (Some ''CS25B001'') None) =
     Respond \<lparr>status = 403, success = False,
        message = ''Your account has no department assigned. Please contact administrator.'',
        extra = NoExtra\<rparr> \<and>
   enforceDepartmentAccess (example_request (example_faculty\<lparr>role := JStr ''department''\<rparr>) None None) =
     Next (example_request (example_faculty\<lparr>role := JStr ''department''\<rparr>) None None)"
  using enforceDepartmentAccess_no_department
          [of "example_request (example_faculty\<lparr>department := JNull\<rparr>) (Some ''CS25B001'') None"
              "example_faculty\<lparr>department := JNull\<rparr>"]
        enforceDepartmentAccess_no_department
          [of "example_request (example_faculty\<lparr>role := JStr ''department''\<rparr>) None None"
              "example_faculty\<lparr>role := JStr ''department''\<rparr>"]
  by (simp add: example_request_def example_faculty_def)

text \<open>
  C6 (as stated): the payload's department is compared with the principal's without
  regard to case. The comparison is \<open>!==\<close> on the two values: \<open>cse\<close> against
  \<open>CSE\<close> is rejected, although the two agree once upper-cased.
\<close>

theorem enforceDepartmentAccess_case_counterexample:
  "toUpperCase ''cse'' = toUpperCase ''CSE'' \<and>
   enforceDepartmentAccess
     (example_request example_faculty None (Some [(''department'', JStr ''cse'')])) =
   Respond \<lparr>status = 403, success = False,
     message = ''Access denied: You can only modify data for your department (CSE)'',
     extra = NoExtra\<rparr>"
  by (simp add: enforceDepartmentAccess_def example_request_def example_faculty_def get_def
      toUpperCase_def upper_char_def)

text \<open>
  C6 (amended): for every faculty principal with a department assigned and every request
  whose payload carries a department and that passed the roll-number check (no roll
  number, or one whose prefix matches), the request is admitted if and only if the
  payload's department is identical to the principal's (an exact, case-sensitive
  comparison); otherwise it is rejected with status 403 and the message that only the
  principal's own department may be modified.
\<close>

theorem enforceDepartmentAccess_body_department:
  assumes "user req = Some u" and "role u = JStr ''faculty''" and "truthy (department u)"
    and "body req = Some b" and "truthy (get b ''department'')"
    and "rollNumber req = None \<or> rollNumber req = Some [] \<or>
         (\<exists>rn d. rollNumber req = Some rn \<and> department u = JStr d \<and>
            toUpperCase (substring02 rn) = toUpperCase (substring02 d))"
  shows "enforceDepartmentAccess req =
           (if get b ''department'' = department u
            then Next (req\<lparr>departmentFilter := department u\<rparr>)
            else Respond \<lparr>status = 403, success = False,
              message = ''Access denied: You can only modify data for your department (''
                @ to_string (department u) @ '')'',
              extra = NoExtra\<rparr>)"
  using assms by (auto simp: enforceDepartmentAccess_def split: option.splits jsval.splits)

theorem enforceDepartmentAccess_body_department_witness:
  "enforceDepartmentAccess
     (example_request example_faculty (Some ''CS25B001'') (Some [(''department'', JStr ''CSE'')])) =
     Next ((example_request example_faculty (Some ''CS25B001'') (Some [(''department'', JStr ''CSE'')]))
             \<lparr>departmentFilter := JStr ''CSE''\<rparr>) \<and>
   enforceDepartmentAccess
     (example_request example_faculty None (Some [(''department'', JStr ''ECE'')])) =
     Respond \<lparr>status = 403, success = False,
       message = ''Access denied: You can only modify data for your department (CSE)'',
       extra = NoExtra\<rparr>"
proof -
  have up: "toUpperCase (substring02 ''CS25B001'') = toUpperCase (substring02 ''CSE'')"
    by (simp add: toUpperCase_def substring02_def)
  have a: "enforceDepartmentAccess
     (example_request example_faculty (Some ''CS25B001'') (Some [(''department'', JStr ''CSE'')])) =
     Next ((example_request example_faculty (Some ''CS25B001'') (Some [(''department'', JStr ''CSE'')]))
             \<lparr>departmentFilter := JStr ''CSE''\<rparr>)"
    using up enforceDepartmentAccess_body_department
      [of "example_request example_faculty (Some ''CS25B001'') (Some [(''department'', JStr ''CSE'')])"
          example_faculty "[(''department'', JStr ''CSE'')]"]
    by (simp add: example_request_def example_faculty_def get_def)
  have b: "enforceDepartmentAccess
     (example_request example_faculty None (Some [(''department'', JStr ''ECE'')])) =
     Respond \<lparr>status = 403, success = False,
       message = ''Access denied: You can only modify data for your department (CSE)'',
       extra = NoExtra\<rparr>"
    using enforceDepartmentAccess_body_department
      [of "example_request example_faculty None (Some [(''department'', JStr ''ECE'')])"
          example_faculty "[(''department'', JStr ''ECE'')]"]
    by (simp add: example_request_def example_faculty_def get_def)
  from a b show ?thesis by simp
qed

section \<open>The store and the token registry\<close>

subsection \<open>Objects and lists\<close>

lemma get_without: "get (without k ob) k' = (if k' = k then JUndefined else get ob k')"
  by (simp add: get_def without_def delete_conv')

lemma keys_without: "k \<notin> set (keys (without k ob))"
  by (simp add: keys_def without_def delete_keys)

lemma get_update: "get (AList.update k v ob) k' = (if k' = k then v else get ob k')"
  by (simp add: get_def update_conv')

lemma find_in_set: "List.find P xs = Some x \<Longrightarrow> x \<in> set xs \<and> P x"
  by (auto simp: find_Some_iff)

subsection \<open>Revocation of refresh tokens\<close>

lemma refresh_absent:
  assumes "refreshTokens t = None \<or> \<not> token_truthy t"
  shows "refresh cfg now users refreshTokens (TokenString t) =
           (if token_truthy t
            then \<lparr>status = 403, success = False, message = ''Invalid refresh token'', extra = NoExtra\<rparr>
            else \<lparr>status = 400, success = False, message = ''Refresh token is required'', extra = NoExtra\<rparr>,
            refreshTokens)"
  using assms by (auto simp: refresh_def)

lemma registry_delete_None: "refreshTokens t = None \<Longrightarrow> registry_delete refreshTokens x t = None"
  by (cases "(refreshTokens, x)" rule: registry_delete.cases) auto

lemma refresh_keeps_absent:
  "refreshTokens t = None \<Longrightarrow> snd (refresh cfg now users refreshTokens x) t = None"
  by (auto simp: refresh_def registry_delete_None split: sum.splits jwt_error.splits option.splits)

lemma logout_keeps_absent:
  "refreshTokens t = None \<Longrightarrow> snd (logout refreshTokens x) t = None"
  by (simp add: logout_def registry_delete_None)

lemma login_keeps_absent:
  assumes "refreshTokens t = None" and "issued_token B cfg (Login now stamp users b) \<noteq> Some t"
  shows "snd (login B cfg now stamp users refreshTokens b) t = None"
  using assms
  by (auto simp: login_def generateRefreshToken_def Let_def split: sum.splits option.splits)

lemma run_calls_keeps_absent:
  assumes "refreshTokens t = None" and "\<forall>c \<in> set calls. issued_token B cfg c \<noteq> Some t"
  shows "run_calls B cfg refreshTokens calls t = None"
  using assms
proof (induction calls arbitrary: refreshTokens)
  case Nil
  then show ?case by simp
next
  case (Cons c calls)
  show ?case
  proof (cases c)
    case (Login now stamp users b)
    with Cons.prems have "snd (login B cfg now stamp users refreshTokens b) t = None"
      by (intro login_keeps_absent) simp_all
    with Cons.IH Cons.prems Login show ?thesis by simp
  next
    case (Refresh now users x)
    with Cons.IH Cons.prems show ?thesis by (simp add: refresh_keeps_absent)
  next
    case (Logout x)
    with Cons.IH Cons.prems show ?thesis by (simp add: logout_keeps_absent)
  qed
qed

lemma logout_removes:
  "snd (logout refreshTokens (TokenString t)) t = None \<or> \<not> token_truthy t"
  by (auto simp: logout_def)

lemma example_refresh_token_eq:
  "example_refresh_token =
     Jwt \<lparr>userId = JStr ''admin'', username = JStr ''admin'', role = JUndefined,
          mspId = Plain JUndefined, department = JUndefined, email = JUndefined\<rparr>
       1000 (Some 605800) default_secret"
  by (simp add: example_refresh_token_def generateRefreshToken_def jwt_sign_def json_claims_def
      example_config_def example_admin_def get_def jwt_secret_def Let_def)

lemma example_admin_login_ok:
  "login example_bcrypt example_config 1000 stamp [example_admin] refreshTokens example_admin_login =
     (\<lparr>status = 200, success = True, message = ''Login successful'',
       extra = LoginData (generateAccessToken example_config 1000 example_admin)
         example_refresh_token ''24h''
         [(''id'', JStr ''admin''), (''username'', JStr ''admin''),
          (''email'', JStr ''admin@nitw.edu''), (''role'', JStr ''admin''),
          (''department'', JNull)]
         (Plain (JStr NITWarangalMSP))\<rparr>,
      refreshTokens(example_refresh_token \<mapsto>
        [(''userId'', JStr ''admin''), (''createdAt'', JStr stamp)]))"
  by (simp add: login_def authenticateUser_def findUserByEmail_def findUserByUsername_def
      example_admin_login_def example_admin_def example_bcrypt_def example_config_def
      example_refresh_token_eq bcrypt_compare_def get_def js_or_def without_def
      generateAccessToken_def generateRefreshToken_def jwt_sign_def json_claims_def
      jwt_secret_def getMSPForRole_def ROLE_TO_MSP_def NITWarangalMSP_def Let_def)

text \<open>
  C3 (as stated): after \<open>logout\<close> has removed a refresh token, every later
  \<open>refresh\<close> of it fails. \<open>jwt.sign\<close> puts the time in whole seconds into the
  token and nothing else that varies, so a second login of the same account in the same
  second hands out the same string and registers it again: the token that was revoked (and
  refused) is accepted once more.
\<close>

theorem refresh_after_second_login_counterexample:
  "fst (login example_bcrypt example_config 1000 ''2025-01-01T00:16:40.100Z'' [example_admin]
          Map.empty example_admin_login) =
     \<lparr>status = 200, success = True, message = ''Login successful'',
       extra = LoginData (generateAccessToken example_config 1000 example_admin)
         example_refresh_token ''24h''
         [(''id'', JStr ''admin''), (''username'', JStr ''admin''),
          (''email'', JStr ''admin@nitw.edu''), (''role'', JStr ''admin''),
          (''department'', JNull)]
         (Plain (JStr NITWarangalMSP))\<rparr> \<and>
   status (fst (refresh example_config 1000 [example_admin]
     (run_calls example_bcrypt example_config Map.empty
        [Login 1000 ''2025-01-01T00:16:40.100Z'' [example_admin] example_admin_login,
         Logout (TokenString example_refresh_token)])
     (TokenString example_refresh_token))) = 403 \<and>
   status (fst (refresh example_config 1001 [example_admin]
     (run_calls example_bcrypt example_config Map.empty
        [Login 1000 ''2025-01-01T00:16:40.100Z'' [example_admin] example_admin_login,
         Logout (TokenString example_refresh_token),
         Login 1000 ''2025-01-01T00:16:40.900Z'' [example_admin] example_admin_login])
     (TokenString example_refresh_token))) = 200"
proof -
  have tr: "token_truthy example_refresh_token" by (simp add: example_refresh_token_eq)
  have v: "jwt_verify example_refresh_token (jwt_secret (env_JWT_SECRET example_config)) 1001 =
     Inr \<lparr>userId = JStr ''admin'', username = JStr ''admin'', role = JUndefined,
          mspId = Plain JUndefined, department = JUndefined, email = JUndefined\<rparr>"
    by (simp add: example_refresh_token_eq example_config_def jwt_secret_def)
  have f: "findUserByUsername [example_admin] (JStr ''admin'') = Some example_admin"
    by (simp add: findUserByUsername_def example_admin_def get_def)
  have a: "truthy (get example_admin ''isActive'')" by (simp add: example_admin_def get_def)
  show ?thesis
    using tr v f a
    by (simp add: example_admin_login_ok refresh_def logout_def)
qed

text \<open>
  C3 (amended): a refresh token that is absent from the registry is rejected by \<open>refresh\<close>
  with status 403 and the message of the registry check (400 if the string is empty), whatever
  its signature and expiry, and the registry is left as it was. After \<open>logout\<close> has
  removed a token, this is the result of every later \<open>refresh\<close> of it, after any run
  of further \<open>login\<close>, \<open>refresh\<close> and \<open>logout\<close> calls in which no login hands
  out the same token string again.
\<close>

theorem refresh_after_revoke:
  "(refreshTokens t = None \<longrightarrow>
      refresh cfg now users refreshTokens (TokenString t) =
        (if token_truthy t
         then \<lparr>status = 403, success = False, message = ''Invalid refresh token'', extra = NoExtra\<rparr>
         else \<lparr>status = 400, success = False, message = ''Refresh token is required'', extra = NoExtra\<rparr>,
         refreshTokens)) \<and>
   (\<forall>calls. (\<forall>c \<in> set calls. issued_token B cfg c \<noteq> Some t) \<longrightarrow>
      refresh cfg now users
        (run_calls B cfg (snd (logout refreshTokens' (TokenString t))) calls) (TokenString t) =
        (if token_truthy t
         then \<lparr>status = 403, success = False, message = ''Invalid refresh token'', extra = NoExtra\<rparr>
         else \<lparr>status = 400, success = False, message = ''Refresh token is required'', extra = NoExtra\<rparr>,
         run_calls B cfg (snd (logout refreshTokens' (TokenString t))) calls))"
proof (intro conjI allI impI)
  assume "refreshTokens t = None"
  then have "refreshTokens t = None \<or> \<not> token_truthy t" by simp
  then show "refresh cfg now users refreshTokens (TokenString t) =
        (if token_truthy t
         then \<lparr>status = 403, success = False, message = ''Invalid refresh token'', extra = NoExtra\<rparr>
         else \<lparr>status = 400, success = False, message = ''Refresh token is required'', extra = NoExtra\<rparr>,
         refreshTokens)"
    by (rule refresh_absent)
next
  fix calls
  assume fresh: "\<forall>c \<in> set calls. issued_token B cfg c \<noteq> Some t"
  have "run_calls B cfg (snd (logout refreshTokens' (TokenString t))) calls t = None
        \<or> \<not> token_truthy t"
    using logout_removes [of refreshTokens' t] run_calls_keeps_absent [OF _ fresh] by blast
  then show "refresh cfg now users
        (run_calls B cfg (snd (logout refreshTokens' (TokenString t))) calls) (TokenString t) =
        (if token_truthy t
         then \<lparr>status = 403, success = False, message = ''Invalid refresh token'', extra = NoExtra\<rparr>
         else \<lparr>status = 400, success = False, message = ''Refresh token is required'', extra = NoExtra\<rparr>,
         run_calls B cfg (snd (logout refreshTokens' (TokenString t))) calls)"
    by (rule refresh_absent)
qed

lemma example_refresh_token_valid:
  "jwt_verify example_refresh_token (jwt_secret (env_JWT_SECRET example_config)) 2000 =
     Inr \<lparr>userId = JStr ''admin'', username = JStr ''admin'', role = JUndefined,
          mspId = Plain JUndefined, department = JUndefined, email = JUndefined\<rparr>"
  by (simp add: example_refresh_token_eq example_config_def jwt_secret_def)

lemma example_refresh_before_logout:
  "status (fst (refresh example_config 2000 [example_admin] example_registry
      (TokenString example_refresh_token))) = 200"
  by (simp add: refresh_def example_registry_def example_refresh_token_def generateRefreshToken_def
      jwt_sign_def json_claims_def example_config_def example_admin_def get_def jwt_secret_def
      findUserByUsername_def Let_def)

lemma example_calls_fresh:
  "\<forall>c \<in> set example_calls.
     issued_token example_bcrypt example_config c \<noteq>
       Some example_refresh_token"
  by (simp add: example_calls_def example_refresh_token_eq login_def authenticateUser_def
      findUserByEmail_def findUserByUsername_def example_admin_def example_student_def
      example_login_body_def get_def js_or_def bcrypt_compare_def example_bcrypt_def
      generateRefreshToken_def jwt_sign_def json_claims_def example_config_def jwt_secret_def
      without_def Let_def)

theorem refresh_after_revoke_witness:
  "jwt_verify example_refresh_token (jwt_secret (env_JWT_SECRET example_config)) 2000 =
     Inr \<lparr>userId = JStr ''admin'', username = JStr ''admin'', role = JUndefined,
          mspId = Plain JUndefined, department = JUndefined, email = JUndefined\<rparr> \<and>
   status (fst (refresh example_config 2000 [example_admin] example_registry
      (TokenString example_refresh_token))) = 200 \<and>
   fst (refresh example_config 2000 [example_admin, example_student]
      (run_calls example_bcrypt example_config
         (snd (logout example_registry (TokenString example_refresh_token))) example_calls)
      (TokenString example_refresh_token)) =
     \<lparr>status = 403, success = False, message = ''Invalid refresh token'', extra = NoExtra\<rparr> \<and>
   fst (refresh example_config 2000 [example_admin, example_student] Map.empty
      (TokenString example_refresh_token)) =
     \<lparr>status = 403, success = False, message = ''Invalid refresh token'', extra = NoExtra\<rparr>"
proof -
  have tr: "token_truthy example_refresh_token"
    by (simp add: example_refresh_token_eq)
  have e: "(Map.empty :: registry) example_refresh_token = None" by simp
  from refresh_after_revoke
    [of Map.empty example_refresh_token example_config 2000 "[example_admin, example_student]"
        example_bcrypt example_registry]
  have a: "refresh example_config 2000 [example_admin, example_student] Map.empty
             (TokenString example_refresh_token) =
        (\<lparr>status = 403, success = False, message = ''Invalid refresh token'', extra = NoExtra\<rparr>,
         Map.empty)"
   and b: "\<forall>calls.
        (\<forall>c \<in> set calls.
           issued_token example_bcrypt example_config c \<noteq>
             Some example_refresh_token) \<longrightarrow>
        refresh example_config 2000 [example_admin, example_student]
        (run_calls example_bcrypt example_config
           (snd (logout example_registry (TokenString example_refresh_token))) calls)
        (TokenString example_refresh_token) =
        (\<lparr>status = 403, success = False, message = ''Invalid refresh token'', extra = NoExtra\<rparr>,
         run_calls example_bcrypt example_config
           (snd (logout example_registry (TokenString example_refresh_token))) calls)"
    using tr e by simp_all
  from b example_calls_fresh
  have c: "fst (refresh example_config 2000 [example_admin, example_student]
      (run_calls example_bcrypt example_config
         (snd (logout example_registry (TokenString example_refresh_token))) example_calls)
      (TokenString example_refresh_token)) =
     \<lparr>status = 403, success = False, message = ''Invalid refresh token'', extra = NoExtra\<rparr>"
    by simp
  from a c example_refresh_token_valid example_refresh_before_logout show ?thesis by simp
qed

section \<open>Accounts and access tokens\<close>

subsection \<open>Reading the store\<close>

text \<open>
  C4 (as stated): every read operation of the store strips the password hash from the
  record it returns. \<open>findUserByUsername\<close> returns the stored object itself, hash
  included.
\<close>

theorem findUserByUsername_passwordHash_counterexample:
  "findUserByUsername [example_admin] (JStr ''admin'') = Some example_admin \<and>
   get example_admin ''passwordHash'' = JStr ''$2a$10$admin123''"
  by (simp add: findUserByUsername_def example_admin_def get_def)

lemma getAllUsers_subset:
  "r \<in> set (getAllUsers users filters) \<Longrightarrow> \<exists>u \<in> set users. r = without ''passwordHash'' u"
  by (auto simp: getAllUsers_def Let_def split: if_splits)

text \<open>
  C4 (amended): \<open>getAllUsers\<close> strips the password hash from every record it returns:
  each is a stored account without its \<open>passwordHash\<close> property. \<open>findUserByUsername\<close>,
  \<open>findUserByEmail\<close> and \<open>findUserById\<close> return the stored account that matches, as it
  is stored (with its password hash): their callers read the hash and strip it themselves.
\<close>

theorem store_reads:
  "(\<forall>r \<in> set (getAllUsers users filters).
      ''passwordHash'' \<notin> set (keys r) \<and> get r ''passwordHash'' = JUndefined \<and>
      (\<exists>u \<in> set users. r = without ''passwordHash'' u)) \<and>
   (findUserByUsername users x = Some u \<longrightarrow> u \<in> set users \<and> get u ''username'' = x) \<and>
   (findUserByEmail users x = Some u \<longrightarrow> u \<in> set users \<and> get u ''email'' = x) \<and>
   (findUserById users x = Some u \<longrightarrow> u \<in> set users \<and> get u ''id'' = x)"
proof (intro conjI ballI impI)
  fix r assume r: "r \<in> set (getAllUsers users filters)"
  then obtain u where u: "u \<in> set users" "r = without ''passwordHash'' u"
    using getAllUsers_subset by blast
  show "''passwordHash'' \<notin> set (keys r)" using u by (simp add: keys_without)
  show "get r ''passwordHash'' = JUndefined" using u by (simp add: get_without)
  show "\<exists>u \<in> set users. r = without ''passwordHash'' u" using u by blast
next
  assume "findUserByUsername users x = Some u"
  then show "u \<in> set users" "get u ''username'' = x"
    by (auto simp: findUserByUsername_def dest: find_in_set)
next
  assume "findUserByEmail users x = Some u"
  then show "u \<in> set users" "get u ''email'' = x"
    by (auto simp: findUserByEmail_def dest: find_in_set)
next
  assume "findUserById users x = Some u"
  then show "u \<in> set users" "get u ''id'' = x"
    by (auto simp: findUserById_def dest: find_in_set)
qed

theorem store_reads_witness:
  "getAllUsers [example_admin] [] = [without ''passwordHash'' example_admin] \<and>
   get (without ''passwordHash'' example_admin) ''passwordHash'' = JUndefined \<and>
   ''passwordHash'' \<notin> set (keys (without ''passwordHash'' example_admin)) \<and>
   findUserByEmail [example_admin] (JStr ''admin@nitw.edu'') = Some example_admin \<and>
   findUserById [example_admin] (JStr ''admin'') = Some example_admin \<and>
   get example_admin ''username'' = JStr ''admin''"
proof -
  have g: "getAllUsers [example_admin] [] = [without ''passwordHash'' example_admin]"
    by (simp add: getAllUsers_def get_def)
  have f1: "findUserByUsername [example_admin] (JStr ''admin'') = Some example_admin"
    by (simp add: findUserByUsername_def example_admin_def get_def)
  have f2: "findUserByEmail [example_admin] (JStr ''admin@nitw.edu'') = Some example_admin"
    by (simp add: findUserByEmail_def example_admin_def get_def)
  have f3: "findUserById [example_admin] (JStr ''admin'') = Some example_admin"
    by (simp add: findUserById_def example_admin_def get_def)
  from store_reads [of "[example_admin]" "[]" "JStr ''admin''" example_admin] g f1
  have "''passwordHash'' \<notin> set (keys (without ''passwordHash'' example_admin))"
    and "get (without ''passwordHash'' example_admin) ''passwordHash'' = JUndefined"
    and "get example_admin ''username'' = JStr ''admin''"
    by simp_all
  with g f2 f3 show ?thesis by simp
qed

subsection \<open>Authentication\<close>






subsection \<open>Access tokens\<close>

text \<open>
  C8 (as stated): the principal decoded from the access token issued for an account has
  the account's department and email. An account whose department \<open>updateUser\<close> has set
  to the empty string yields a principal whose department is \<open>null\<close>.
\<close>

theorem access_token_department_counterexample:
  "snd (updateUser example_bcrypt example_clock [example_student]
          (JStr ''student-1700000000000'') [(''department'', JStr [])]) =
     [example_blank_department] \<and>
   get example_blank_department ''department'' = JStr [] \<and>
   authenticateToken None 2000
     (example_bearer (generateAccessToken example_config 1000 example_blank_department)) =
   Next ((example_bearer (generateAccessToken example_config 1000 example_blank_department))
     \<lparr>user := Some
        \<lparr>userId = JStr ''student-1700000000000'', username = JStr ''student1'',
         role = JStr ''student'', mspId = Plain (JStr NITWarangalMSP),
         department = JNull, email = JStr ''s1@x.edu''\<rparr>\<rparr>)"
proof -
  have u: "snd (updateUser example_bcrypt example_clock [example_student]
          (JStr ''student-1700000000000'') [(''department'', JStr [])]) =
     [example_blank_department]"
    by (simp add: updateUser_def example_student_def example_blank_department_def get_def
        sanitize_def allowedUpdates_def spread_def example_clock_def Let_def)
  have g: "get example_blank_department ''department'' = JStr []"
    by (simp add: example_blank_department_def get_def)
  have t: "authenticateToken None 2000
     (example_bearer (generateAccessToken example_config 1000 example_blank_department)) =
   Next ((example_bearer (generateAccessToken example_config 1000 example_blank_department))
     \<lparr>user := Some
        \<lparr>userId = JStr ''student-1700000000000'', username = JStr ''student1'',
         role = JStr ''student'', mspId = Plain (JStr NITWarangalMSP),
         department = JNull, email = JStr ''s1@x.edu''\<rparr>\<rparr>)"
    by (simp add: authenticateToken_def bearer_token_def example_bearer_def
        generateAccessToken_def jwt_sign_def json_claims_def example_config_def
        example_blank_department_def get_def getMSPForRole_def ROLE_TO_MSP_def js_or_def
        jwt_secret_def NITWarangalMSP_def)
  from u g t show ?thesis by simp
qed

lemma json_msp_getMSPForRole:
  "to_string r \<notin> set Object_prototype_names \<Longrightarrow> json_msp (getMSPForRole r) = getMSPForRole r"
  by (simp add: getMSPForRole_def Let_def split: option.splits)

text \<open>
  C8 (amended): for every account \<open>a\<close>, active or inactive, verifying the access token
  issued for \<open>a\<close> before its TTL has elapsed yields the principal whose identifier,
  login name and role are those of \<open>a\<close>, whose ledger namespace is
  \<open>getMSPForRole\<close> of \<open>a\<close>'s role (as it survives JSON), and whose department and
  email are \<open>a.department || null\<close> and \<open>a.email || null\<close>: equal to \<open>a\<close>'s where
  these are non-empty or \<open>null\<close>, and \<open>null\<close> where they are empty or absent.
\<close>

theorem access_token_round_trip:
  "(now' < now + JWT_EXPIRY_seconds cfg \<and>
    authorization req = Some [Raw ''Bearer'', generateAccessToken cfg now a] \<longrightarrow>
      authenticateToken (env_JWT_SECRET cfg) now' req =
        Next (req\<lparr>user := Some
          \<lparr>userId = get a ''id'',
           username = get a ''username'',
           role = get a ''role'',
           mspId = json_msp (getMSPForRole (get a ''role'')),
           department = js_or (get a ''department'') JNull,
           email = js_or (get a ''email'') JNull\<rparr>\<rparr>)) \<and>
   (to_string (get a ''role'') \<notin> set Object_prototype_names \<longrightarrow>
      json_msp (getMSPForRole (get a ''role'')) = getMSPForRole (get a ''role'')) \<and>
   (\<forall>v. truthy v \<or> v = JNull \<longrightarrow> js_or v JNull = v) \<and>
   (\<forall>v. \<not> truthy v \<longrightarrow> js_or v JNull = JNull)"
  by (auto simp: authenticateToken_def bearer_token_def generateAccessToken_def jwt_sign_def
      json_claims_def js_or_def json_msp_getMSPForRole)

theorem access_token_round_trip_witness:
  "authenticateToken None 87399
     (example_bearer (generateAccessToken example_config 1000 example_inactive)) =
   Next ((example_bearer (generateAccessToken example_config 1000 example_inactive))
     \<lparr>user := Some
        \<lparr>userId = JStr ''verifier-1700000000000'', username = JStr ''verifier1'',
         role = JStr ''verifier'', mspId = Plain (JStr VerifiersMSP),
         department = JNull, email = JStr ''v1@x.edu''\<rparr>\<rparr>) \<and>
   get example_inactive ''isActive'' = JBool False"
proof -
  have t: "(87399::nat) < 1000 + JWT_EXPIRY_seconds example_config"
    by (simp add: example_config_def)
  have h: "authorization (example_bearer (generateAccessToken example_config 1000 example_inactive)) =
        Some [Raw ''Bearer'', generateAccessToken example_config 1000 example_inactive]"
    by (simp add: example_bearer_def)
  have r: "to_string (get example_inactive ''role'') \<notin> set Object_prototype_names"
    by (simp add: example_inactive_def get_def Object_prototype_names_def)
  have e: "env_JWT_SECRET example_config = None" by (simp add: example_config_def)
  from access_token_round_trip
    [of 87399 1000 example_config
        "example_bearer (generateAccessToken example_config 1000 example_inactive)"
        example_inactive] t h r e
  show ?thesis
    by (simp add: example_inactive_def get_def getMSPForRole_def ROLE_TO_MSP_def js_or_def
        VerifiersMSP_def)
qed

section \<open>Registration and update\<close>

subsection \<open>Registration\<close>

lemma createUser_error_store:
  "createUser B clk users ud = (Inl e, users') \<Longrightarrow> users' = users"
  by (auto simp: createUser_def Let_def split: if_splits sum.splits)

lemma createUser_success:
  assumes "createUser B clk users ud = (Inr c, users')"
  shows "\<exists>n. users' = users @ [n] \<and> get n ''username'' = get ud ''username'' \<and>
             get n ''email'' = get ud ''email''"
    and "findUserByUsername users (get ud ''username'') = None"
  using assms
  by (auto simp: createUser_def Let_def get_def split: if_splits sum.splits)

lemma findUserByUsername_append:
  "get n ''username'' = x \<Longrightarrow> findUserByUsername (users @ [n]) x \<noteq> None"
  by (auto simp: findUserByUsername_def find_None_iff)

lemma createUser_taken:
  assumes "findUserByUsername users (get ud ''username'') \<noteq> None"
  shows "\<exists>e. createUser B clk users ud = (Inl e, users)"
  using assms by (auto simp: createUser_def Let_def split: sum.splits)

lemma createUser_again:
  assumes "createUser B clk users ud = (Inr c, users')"
  shows "createUser B' clk' users' ud =
           (Inl (''Username '' @ [CHR 0x27] @ to_string (get ud ''username'') @ [CHR 0x27] @
                 '' already exists''), users')"
proof -
  from createUser_success [OF assms] obtain n where
    n: "users' = users @ [n]" "get n ''username'' = get ud ''username''" by blast
  then have taken: "findUserByUsername users' (get ud ''username'') \<noteq> None"
    by (simp add: findUserByUsername_append)
  from assms have valid:
    "truthy (get ud ''username'')" "truthy (get ud ''password'')" "truthy (get ud ''email'')"
    "truthy (get ud ''role'')" "isValidRole (get ud ''role'')"
    "\<not> ((get ud ''role'' = JStr ''faculty'' \<or> get ud ''role'' = JStr ''student'') \<and>
        \<not> truthy (get ud ''department''))"
    by (auto simp: createUser_def Let_def split: if_splits)
  with taken show ?thesis by (simp add: createUser_def Let_def)
qed

lemma already_exists_includes:
  "str_includes (p @ '' already exists'') ''already exists''"
proof -
  have "p @ '' already exists'' = (p @ '' '') @ ''already exists'' @ []" by simp
  then show ?thesis unfolding str_includes_def sublist_def by blast
qed

lemma register_201:
  assumes "status (fst (register B clk ledger users b)) = 201"
  shows "\<exists>c. createUser B clk users
              [(''username'', get b ''username''), (''password'', get b ''password''),
               (''email'', get b ''email''), (''role'', get b ''role''),
               (''department'', js_or (get b ''department'') JNull)] =
              (Inr c, snd (register B clk ledger users b))"
    and "truthy (get b ''username'')" and "truthy (get b ''password'')"
    and "truthy (get b ''email'')" and "truthy (get b ''role'')"
    and "\<not> length_below (get b ''password'') 6"
    and "emailRegex_test (to_string (get b ''email''))"
  using assms
  by (auto simp: register_def Let_def split: if_splits sum.splits prod.splits ledger_step.splits)

lemma register_not_201:
  assumes "status (fst (register B clk ledger users b)) \<noteq> 201"
  shows "snd (register B clk ledger users b) = users"
  using assms
  by (auto simp: register_def Let_def
      split: if_splits sum.splits prod.splits ledger_step.splits dest: createUser_error_store)

lemma createUser_taken_valid:
  assumes "truthy (get ud ''username'')" and "truthy (get ud ''password'')"
    and "truthy (get ud ''email'')" and "truthy (get ud ''role'')"
    and "isValidRole (get ud ''role'')"
    and "\<not> ((get ud ''role'' = JStr ''faculty'' \<or> get ud ''role'' = JStr ''student'') \<and>
            \<not> truthy (get ud ''department''))"
    and "findUserByUsername users (get ud ''username'') \<noteq> None"
  shows "createUser B clk users ud =
           (Inl (''Username '' @ [CHR 0x27] @ to_string (get ud ''username'') @ [CHR 0x27] @
                 '' already exists''), users)"
  using assms by (simp add: createUser_def Let_def)

lemma register_first:
  "register example_bcrypt example_clock LedgerDone [example_admin] example_body =
     (\<lparr>status = 201, success = True, message = ''User registered successfully'',
       extra = UserData
         [(''id'', JStr ''student-1700000000000''), (''username'', JStr ''student1''),
          (''email'', JStr ''s1@x.edu''), (''role'', JStr ''student''),
          (''department'', JStr ''CSE'')]
         (Plain (JStr NITWarangalMSP))\<rparr>,
      [example_admin, example_student])"
  by (simp add: register_def createUser_def example_body_def example_admin_def
      example_student_def example_bcrypt_def example_clock_def get_def Let_def
      emailRegex_test_def is_space_def isValidRole_def keys_def ROLE_TO_MSP_def
      findUserByUsername_def findUserByEmail_def bcrypt_hash_def js_or_def without_def
      getMSPForRole_def NITWarangalMSP_def)

text \<open>
  C9 (as stated): calling \<open>register\<close> twice with the same login name yields Conflict on
  the second call. \<open>register\<close> tests the password length and the email format, and
  \<open>createUser\<close> the role and the department, before the login name is looked up: a second
  input with the login name of the first and a password of three characters is answered
  with status 400, not 409.
\<close>

theorem register_same_login_counterexample:
  "register example_bcrypt example_clock LedgerDone [example_admin] example_body =
     (\<lparr>status = 201, success = True, message = ''User registered successfully'',
       extra = UserData
         [(''id'', JStr ''student-1700000000000''), (''username'', JStr ''student1''),
          (''email'', JStr ''s1@x.edu''), (''role'', JStr ''student''),
          (''department'', JStr ''CSE'')]
         (Plain (JStr NITWarangalMSP))\<rparr>,
      [example_admin, example_student]) \<and>
   get example_short_password ''username'' = get example_body ''username'' \<and>
   register example_bcrypt example_clock LedgerDone [example_admin, example_student]
     example_short_password =
     (\<lparr>status = 400, success = False,
       message = ''Password must be at least 6 characters long'', extra = NoExtra\<rparr>,
      [example_admin, example_student])"
proof -
  have "get example_short_password ''username'' = get example_body ''username''"
    by (simp add: example_short_password_def example_body_def get_def)
  moreover have "register example_bcrypt example_clock LedgerDone [example_admin, example_student]
     example_short_password =
     (\<lparr>status = 400, success = False,
       message = ''Password must be at least 6 characters long'', extra = NoExtra\<rparr>,
      [example_admin, example_student])"
    by (simp add: register_def example_short_password_def get_def Let_def)
  ultimately show ?thesis using register_first by simp
qed

text \<open>
  C9 (amended): when a call of \<open>register\<close> has created an account, every second input
  with the same login name that passes the checks made before the lookup (password, email
  and role present, password not shorter than six characters, email of the required format,
  role in the table, a department for faculty and student) is answered with status 409
  (Conflict) and the \<open>already exists\<close> message of \<open>createUser\<close>, whatever its other
  fields are; so is the same input sent again. Every second input with the same login name
  is refused (never status 201), and the store, with the account created by the first
  call, is left as it was. Likewise \<open>createUser\<close> itself: called again with the data it
  has just stored, it throws the \<open>already exists\<close> error and writes nothing.
\<close>

theorem register_same_login:
  "(status (fst (register B clk ledger users b)) = 201 \<and>
    get b' ''username'' = get b ''username'' \<and>
    truthy (get b' ''password'') \<and> truthy (get b' ''email'') \<and> truthy (get b' ''role'') \<and>
    \<not> length_below (get b' ''password'') 6 \<and>
    emailRegex_test (to_string (get b' ''email'')) \<and>
    isValidRole (get b' ''role'') \<and>
    \<not> ((get b' ''role'' = JStr ''faculty'' \<or> get b' ''role'' = JStr ''student'') \<and>
        \<not> truthy (get b' ''department'')) \<longrightarrow>
      register B' clk' ledger' (snd (register B clk ledger users b)) b' =
        (\<lparr>status = 409, success = False,
          message = ''Username '' @ [CHR 0x27] @ to_string (get b ''username'') @ [CHR 0x27] @
                    '' already exists'',
          extra = NoExtra\<rparr>,
         snd (register B clk ledger users b))) \<and>
   (status (fst (register B clk ledger users b)) = 201 \<longrightarrow>
      register B' clk' ledger' (snd (register B clk ledger users b)) b =
        (\<lparr>status = 409, success = False,
          message = ''Username '' @ [CHR 0x27] @ to_string (get b ''username'') @ [CHR 0x27] @
                    '' already exists'',
          extra = NoExtra\<rparr>,
         snd (register B clk ledger users b))) \<and>
   (status (fst (register B clk ledger users b)) = 201 \<and> get b' ''username'' = get b ''username'' \<longrightarrow>
      status (fst (register B' clk' ledger' (snd (register B clk ledger users b)) b')) \<noteq> 201 \<and>
      snd (register B' clk' ledger' (snd (register B clk ledger users b)) b') =
        snd (register B clk ledger users b)) \<and>
   (createUser B clk users userData = (Inr created, users') \<longrightarrow>
      createUser B' clk' users' userData =
        (Inl (''Username '' @ [CHR 0x27] @ to_string (get userData ''username'') @ [CHR 0x27] @
              '' already exists''), users'))"
proof -
  let ?users' = "snd (register B clk ledger users b)"
  let ?ud = "[(''username'', get b ''username''), (''password'', get b ''password''),
               (''email'', get b ''email''), (''role'', get b ''role''),
               (''department'', js_or (get b ''department'') JNull)]"
  have taken: "findUserByUsername ?users' (get b ''username'') \<noteq> None"
    if ok: "status (fst (register B clk ledger users b)) = 201"
  proof -
    from register_201(1) [OF ok] obtain c where
      c: "createUser B clk users ?ud = (Inr c, ?users')" by blast
    from createUser_success(1) [OF c] obtain n where
      n: "?users' = users @ [n]" "get n ''username'' = get ?ud ''username''" by blast
    have "get ?ud ''username'' = get b ''username''" by (simp add: get_def)
    with n show ?thesis by (simp add: findUserByUsername_append)
  qed
  have general: "register B' clk' ledger' ?users' c =
        (\<lparr>status = 409, success = False,
          message = ''Username '' @ [CHR 0x27] @ to_string (get b ''username'') @ [CHR 0x27] @
                    '' already exists'',
          extra = NoExtra\<rparr>, ?users')"
    if ok: "status (fst (register B clk ledger users b)) = 201"
      and same: "get c ''username'' = get b ''username''"
      and v: "truthy (get c ''password'')" "truthy (get c ''email'')" "truthy (get c ''role'')"
        "\<not> length_below (get c ''password'') 6" "emailRegex_test (to_string (get c ''email''))"
        "isValidRole (get c ''role'')"
        "\<not> ((get c ''role'' = JStr ''faculty'' \<or> get c ''role'' = JStr ''student'') \<and>
            \<not> truthy (get c ''department''))"
    for c
  proof -
    let ?uc = "[(''username'', get c ''username''), (''password'', get c ''password''),
               (''email'', get c ''email''), (''role'', get c ''role''),
               (''department'', js_or (get c ''department'') JNull)]"
    from register_201(2) [OF ok] same have tu: "truthy (get c ''username'')" by simp
    from taken [OF ok] same
    have tk: "findUserByUsername ?users' (get c ''username'') \<noteq> None" by simp
    have fields: "get ?uc ''username'' = get c ''username''" "get ?uc ''password'' = get c ''password''"
      "get ?uc ''email'' = get c ''email''" "get ?uc ''role'' = get c ''role''"
      "get ?uc ''department'' = js_or (get c ''department'') JNull"
      by (simp_all add: get_def)
    have dept: "truthy (js_or (get c ''department'') JNull) = truthy (get c ''department'')"
      by (simp add: js_or_def)
    have "createUser B' clk' ?users' ?uc =
        (Inl (''Username '' @ [CHR 0x27] @ to_string (get ?uc ''username'') @ [CHR 0x27] @
              '' already exists''), ?users')"
      using tu v tk
      by (intro createUser_taken_valid) (simp_all add: fields dept)
    then have cu: "createUser B' clk' ?users' ?uc =
        (Inl (''Username '' @ [CHR 0x27] @ to_string (get b ''username'') @ [CHR 0x27] @
              '' already exists''), ?users')"
      using same by (simp add: get_def)
    have inc: "str_includes (''Username '' @ [CHR 0x27] @ to_string (get b ''username'') @
            [CHR 0x27] @ '' already exists'') ''already exists''"
      using already_exists_includes
        [of "''Username '' @ [CHR 0x27] @ to_string (get b ''username'') @ [CHR 0x27]"]
      by simp
    show ?thesis using tu v cu inc by (simp add: register_def Let_def)
  qed
  have first_valid: "isValidRole (get b ''role'') \<and>
        \<not> ((get b ''role'' = JStr ''faculty'' \<or> get b ''role'' = JStr ''student'') \<and>
            \<not> truthy (get b ''department''))"
    if ok: "status (fst (register B clk ledger users b)) = 201"
  proof -
    from register_201(1) [OF ok] obtain c where
      c: "createUser B clk users ?ud = (Inr c, ?users')" by blast
    then show ?thesis
      by (auto simp: createUser_def Let_def get_def js_or_def split: if_splits)
  qed
  have same_body: "register B' clk' ledger' ?users' b =
        (\<lparr>status = 409, success = False,
          message = ''Username '' @ [CHR 0x27] @ to_string (get b ''username'') @ [CHR 0x27] @
                    '' already exists'',
          extra = NoExtra\<rparr>, ?users')"
    if ok: "status (fst (register B clk ledger users b)) = 201"
    using general [OF ok, of b] register_201 [OF ok] first_valid [OF ok] by simp
  have refused: "status (fst (register B' clk' ledger' ?users' b')) \<noteq> 201 \<and>
        snd (register B' clk' ledger' ?users' b') = ?users'"
    if ok: "status (fst (register B clk ledger users b)) = 201"
      and same: "get b' ''username'' = get b ''username''"
  proof -
    let ?ud' = "[(''username'', get b' ''username''), (''password'', get b' ''password''),
               (''email'', get b' ''email''), (''role'', get b' ''role''),
               (''department'', js_or (get b' ''department'') JNull)]"
    have "get ?ud' ''username'' = get b ''username''" using same by (simp add: get_def)
    with taken [OF ok] have "findUserByUsername ?users' (get ?ud' ''username'') \<noteq> None" by simp
    from createUser_taken [OF this, of B' clk'] obtain e where
      e: "createUser B' clk' ?users' ?ud' = (Inl e, ?users')" by blast
    then have st: "status (fst (register B' clk' ledger' ?users' b')) \<noteq> 201"
      by (simp add: register_def Let_def)
    with register_not_201 [OF st] show ?thesis by simp
  qed
  show ?thesis
    using general [of b'] same_body refused createUser_again [of B clk users userData created users' B' clk']
    by blast
qed

theorem register_same_login_witness:
  "register example_bcrypt example_clock LedgerDone [example_admin, example_student] example_body =
     (\<lparr>status = 409, success = False,
       message = ''Username '' @ [CHR 0x27] @ ''student1'' @ [CHR 0x27] @ '' already exists'',
       extra = NoExtra\<rparr>,
      [example_admin, example_student]) \<and>
   register example_bcrypt example_clock LedgerDone [example_admin, example_student]
     example_other_fields =
     (\<lparr>status = 409, success = False,
       message = ''Username '' @ [CHR 0x27] @ ''student1'' @ [CHR 0x27] @ '' already exists'',
       extra = NoExtra\<rparr>,
      [example_admin, example_student]) \<and>
   get example_other_fields ''email'' = JStr ''other@x.edu''"
proof -
  have u: "get example_body ''username'' = JStr ''student1''"
    by (simp add: example_body_def get_def)
  have o: "get example_other_fields ''username'' = JStr ''student1''"
    "get example_other_fields ''password'' = JStr ''Another456''"
    "get example_other_fields ''email'' = JStr ''other@x.edu''"
    "get example_other_fields ''role'' = JStr ''verifier''"
    "get example_other_fields ''department'' = JUndefined"
    by (simp_all add: example_other_fields_def get_def)
  have valid: "emailRegex_test ''other@x.edu''" "isValidRole (JStr ''verifier'')"
    by (simp_all add: emailRegex_test_def is_space_def isValidRole_def keys_def ROLE_TO_MSP_def)
  from register_same_login
    [of example_bcrypt example_clock LedgerDone "[example_admin]" example_body
        example_other_fields example_bcrypt example_clock LedgerDone]
    register_first u o valid
  show ?thesis by simp
qed

subsection \<open>Updating an account\<close>

lemma findIndex_Some:
  "findIndex P xs = Some i \<Longrightarrow> i < length xs \<and> P (xs ! i)"
proof (induction xs arbitrary: i)
  case Nil
  then show ?case by simp
next
  case (Cons x xs)
  then show ?case by (auto split: if_splits)
qed

lemma spread_Cons: "spread a ((k, v) # b) = spread (AList.update k v a) b"
  by (simp add: spread_def)

lemma get_spread_other:
  "k \<notin> set (keys b) \<Longrightarrow> get (spread a b) k = get a k"
proof (induction b arbitrary: a)
  case Nil
  then show ?case by (simp add: spread_def)
next
  case (Cons p b)
  obtain k' v where p: "p = (k', v)" by (cases p)
  from Cons.prems p have "k \<noteq> k'" and "k \<notin> set (keys b)" by (auto simp: keys_def)
  with Cons.IH [of "AList.update k' v a"] p show ?case
    by (simp add: spread_Cons get_update)
qed

lemma keys_update: "set (keys (AList.update k v ob)) = insert k (set (keys ob))"
  using dom_update [of k v ob] by (simp add: keys_def)

lemma keys_sanitize: "set (keys (sanitize updates)) \<subseteq> {''email'', ''department'', ''isActive''}"
  by (auto simp: sanitize_def allowedUpdates_def keys_update keys_def)

lemma updateUser_error_store:
  "updateUser B clk users uid updates = (Inl e, users') \<Longrightarrow> users' = users"
  by (auto simp: updateUser_def Let_def split: option.splits if_splits sum.splits)

lemma updateUser_success:
  assumes "updateUser B clk users uid updates = (Inr ret, users')"
  shows "\<exists>i sanitized.
           findIndex (\<lambda>u. get u ''id'' = uid) users = Some i \<and>
           set (keys sanitized) \<subseteq> {''email'', ''department'', ''isActive'', ''passwordHash''} \<and>
           (\<not> truthy (get updates ''password'') \<longrightarrow> ''passwordHash'' \<notin> set (keys sanitized)) \<and>
           users' = users[i := AList.update ''updatedAt'' (JStr (iso_first clk))
                                 (spread (users ! i) sanitized)] \<and>
           ret = without ''passwordHash'' (users' ! i)"
proof -
  from assms obtain i where i: "findIndex (\<lambda>u. get u ''id'' = uid) users = Some i"
    by (auto simp: updateUser_def split: option.splits)
  show ?thesis
  proof (cases "truthy (get updates ''password'')")
    case True
    with assms i obtain h where "bcrypt_hash B (get updates ''password'') = Inr h"
      by (auto simp: updateUser_def Let_def split: sum.splits)
    with assms i True show ?thesis
      using keys_sanitize [of updates]
      by (intro exI [of _ i] exI [of _ "AList.update ''passwordHash'' (JStr h) (sanitize updates)"])
         (auto simp: updateUser_def Let_def keys_update)
  next
    case False
    with assms i show ?thesis
      using keys_sanitize [of updates]
      by (intro exI [of _ i] exI [of _ "sanitize updates"])
         (auto simp: updateUser_def Let_def)
  qed
qed

text \<open>
  C10: when \<open>updateUser\<close> succeeds, the stored record of the account differs from the
  original at most in the properties \<open>email\<close>, \<open>department\<close>, \<open>isActive\<close>,
  \<open>passwordHash\<close> (only when a password is supplied) and \<open>updatedAt\<close>; \<open>id\<close>,
  \<open>username\<close>, \<open>role\<close> and \<open>createdAt\<close> are unchanged whatever the updates object
  supplies, and so is every other account. The record returned is the stored one without
  its password hash. When \<open>updateUser\<close> fails the store is unchanged.
\<close>

theorem updateUser_frame:
  "(updateUser B clk users uid updates = (Inr ret, users') \<longrightarrow>
     (\<exists>i < length users.
        findIndex (\<lambda>u. get u ''id'' = uid) users = Some i \<and>
        length users' = length users \<and>
        (\<forall>j < length users. j \<noteq> i \<longrightarrow> users' ! j = users ! j) \<and>
        (\<forall>k. k \<notin> {''email'', ''department'', ''isActive'', ''passwordHash'', ''updatedAt''} \<longrightarrow>
           get (users' ! i) k = get (users ! i) k) \<and>
        get (users' ! i) ''id'' = get (users ! i) ''id'' \<and>
        get (users' ! i) ''username'' = get (users ! i) ''username'' \<and>
        get (users' ! i) ''role'' = get (users ! i) ''role'' \<and>
        get (users' ! i) ''createdAt'' = get (users ! i) ''createdAt'' \<and>
        (\<not> truthy (get updates ''password'') \<longrightarrow>
           get (users' ! i) ''passwordHash'' = get (users ! i) ''passwordHash'') \<and>
        get (users' ! i) ''updatedAt'' = JStr (iso_first clk) \<and>
        ret = without ''passwordHash'' (users' ! i))) \<and>
   (updateUser B clk users uid updates = (Inl e, users') \<longrightarrow> users' = users)"
proof (intro conjI impI)
  assume ok: "updateUser B clk users uid updates = (Inr ret, users')"
  from updateUser_success [OF ok] obtain i sanitized where
    i: "findIndex (\<lambda>u. get u ''id'' = uid) users = Some i"
    and ks: "set (keys sanitized) \<subseteq> {''email'', ''department'', ''isActive'', ''passwordHash''}"
    and pw: "\<not> truthy (get updates ''password'') \<longrightarrow> ''passwordHash'' \<notin> set (keys sanitized)"
    and us: "users' = users[i := AList.update ''updatedAt'' (JStr (iso_first clk))
                                 (spread (users ! i) sanitized)]"
    and r: "ret = without ''passwordHash'' (users' ! i)"
    by blast
  from findIndex_Some [OF i] have len: "i < length users" by simp
  have at: "users' ! i = AList.update ''updatedAt'' (JStr (iso_first clk))
                           (spread (users ! i) sanitized)"
    using us len by simp
  have frame: "get (users' ! i) k = get (users ! i) k"
    if "k \<notin> {''email'', ''department'', ''isActive'', ''passwordHash'', ''updatedAt''}" for k
  proof -
    from that ks have "k \<notin> set (keys sanitized)" and "k \<noteq> ''updatedAt''" by auto
    then show ?thesis by (simp add: at get_update get_spread_other)
  qed
  have hash: "get (users' ! i) ''passwordHash'' = get (users ! i) ''passwordHash''"
    if "\<not> truthy (get updates ''password'')"
    using that pw by (simp add: at get_update get_spread_other)
  have others: "users' ! j = users ! j" if "j \<noteq> i" for j
    using that us by simp
  have stamp: "get (users' ! i) ''updatedAt'' = JStr (iso_first clk)"
    by (simp add: at get_update)
  show "\<exists>i < length users.
        findIndex (\<lambda>u. get u ''id'' = uid) users = Some i \<and>
        length users' = length users \<and>
        (\<forall>j < length users. j \<noteq> i \<longrightarrow> users' ! j = users ! j) \<and>
        (\<forall>k. k \<notin> {''email'', ''department'', ''isActive'', ''passwordHash'', ''updatedAt''} \<longrightarrow>
           get (users' ! i) k = get (users ! i) k) \<and>
        get (users' ! i) ''id'' = get (users ! i) ''id'' \<and>
        get (users' ! i) ''username'' = get (users ! i) ''username'' \<and>
        get (users' ! i) ''role'' = get (users ! i) ''role'' \<and>
        get (users' ! i) ''createdAt'' = get (users ! i) ''createdAt'' \<and>
        (\<not> truthy (get updates ''password'') \<longrightarrow>
           get (users' ! i) ''passwordHash'' = get (users ! i) ''passwordHash'') \<and>
        get (users' ! i) ''updatedAt'' = JStr (iso_first clk) \<and>
        ret = without ''passwordHash'' (users' ! i)"
  proof (intro exI [of _ i] conjI)
    show "i < length users" by (rule len)
    show "findIndex (\<lambda>u. get u ''id'' = uid) users = Some i" by (rule i)
    show "length users' = length users" using us by simp
    show "\<forall>j < length users. j \<noteq> i \<longrightarrow> users' ! j = users ! j" using others by blast
    show "\<forall>k. k \<notin> {''email'', ''department'', ''isActive'', ''passwordHash'', ''updatedAt''} \<longrightarrow>
           get (users' ! i) k = get (users ! i) k" using frame by blast
    show "get (users' ! i) ''id'' = get (users ! i) ''id''" by (rule frame) simp
    show "get (users' ! i) ''username'' = get (users ! i) ''username''" by (rule frame) simp
    show "get (users' ! i) ''role'' = get (users ! i) ''role''" by (rule frame) simp
    show "get (users' ! i) ''createdAt'' = get (users ! i) ''createdAt''" by (rule frame) simp
    show "\<not> truthy (get updates ''password'') \<longrightarrow>
           get (users' ! i) ''passwordHash'' = get (users ! i) ''passwordHash''"
      using hash by blast
    show "get (users' ! i) ''updatedAt'' = JStr (iso_first clk)" by (rule stamp)
    show "ret = without ''passwordHash'' (users' ! i)" by (rule r)
  qed
next
  assume "updateUser B clk users uid updates = (Inl e, users')"
  then show "users' = users" by (rule updateUser_error_store)
qed

theorem updateUser_frame_witness:
  "updateUser example_bcrypt example_clock [example_admin, example_student]
     (JStr ''student-1700000000000'') example_updates =
     (Inr (without ''passwordHash'' example_updated), [example_admin, example_updated]) \<and>
   get example_updated ''id'' = get example_student ''id'' \<and>
   get example_updated ''username'' = get example_student ''username'' \<and>
   get example_updated ''role'' = get example_student ''role'' \<and>
   get example_updated ''createdAt'' = get example_student ''createdAt'' \<and>
   get example_updates ''role'' = JStr ''admin''"
proof -
  have run: "updateUser example_bcrypt example_clock [example_admin, example_student]
     (JStr ''student-1700000000000'') example_updates =
     (Inr (without ''passwordHash'' example_updated), [example_admin, example_updated])"
    by (simp add: updateUser_def example_admin_def example_student_def example_updates_def
        example_updated_def example_bcrypt_def example_clock_def get_def sanitize_def
        allowedUpdates_def spread_def bcrypt_hash_def without_def Let_def)
  have idx: "findIndex (\<lambda>u. get u ''id'' = JStr ''student-1700000000000'')
               [example_admin, example_student] = Some 1"
    by (simp add: example_admin_def example_student_def get_def)
  have g: "get example_updates ''role'' = JStr ''admin''"
    by (simp add: example_updates_def get_def)
  from updateUser_frame
    [of example_bcrypt example_clock "[example_admin, example_student]"
        "JStr ''student-1700000000000''" example_updates
        "without ''passwordHash'' example_updated" "[example_admin, example_updated]"]
    run idx
  have "get example_updated ''id'' = get example_student ''id'' \<and>
        get example_updated ''username'' = get example_student ''username'' \<and>
        get example_updated ''role'' = get example_student ''role'' \<and>
        get example_updated ''createdAt'' = get example_student ''createdAt''"
    by auto
  with run g show ?thesis by simp
qed

end
